theory Spec2Isabelle
  imports Complex_Main "HOL-Library.Multiset"
begin

section \<open>Python and numpy primitives used by \<open>camd/agent/base.py\<close>\<close>

text \<open>
  Exceptions are values. \<open>IndexError\<close> is what Python list indexing and pandas
  \<open>iloc\<close> raise out of range; \<open>ValueError\<close> is what numpy, pandas and sklearn raise on
  malformed input. \<open>NotFittedError\<close> is the error the specification names; no statement
  of \<open>base.py\<close> raises it, it can only come out of a collaborator.
\<close>

datatype error = IndexError | ValueError | NotFittedError

text \<open>\<open>range(n)\<close> for a Python int: empty when \<open>n \<le> 0\<close>.\<close>

definition py_range :: "int \<Rightarrow> nat list" where
  "py_range n = [0..<nat n]"

text \<open>\<open>xs[i]\<close> on a Python list, for the non-negative indices a \<open>range\<close> yields.\<close>

definition py_index :: "'a list \<Rightarrow> nat \<Rightarrow> error + 'a" where
  "py_index xs i = (if i < length xs then Inr (xs ! i) else Inl IndexError)"

text \<open>
  \<open>int(x)\<close> on a float truncates towards zero. A float is modelled by the real number
  it stands for.
\<close>

definition py_int :: "real \<Rightarrow> int" where
  "py_int x = (if 0 \<le> x then \<lfloor>x\<rfloor> else \<lceil>x\<rceil>)"

text \<open>The slice \<open>a[:k]\<close>: a negative \<open>k\<close> counts from the end, a large one is clipped.\<close>

definition py_slice_to :: "int \<Rightarrow> 'a list \<Rightarrow> 'a list" where
  "py_slice_to k xs =
     (if 0 \<le> k then take (nat k) xs else take (length xs - nat (- k)) xs)"

text \<open>
  \<open>frame.iloc[indices]\<close> with a list of non-negative positions: the rows at these
  positions, in the order asked for; pandas raises \<open>IndexError\<close> when a position is out
  of bounds.
\<close>

definition iloc :: "'a list \<Rightarrow> nat list \<Rightarrow> error + 'a list" where
  "iloc frame indices =
     (if list_all (\<lambda>i. i < length frame) indices
      then Inr (map (\<lambda>i. frame ! i) indices) else Inl IndexError)"

text \<open>
  The value of \<open>np.mean\<close> and \<open>np.std\<close> along axis 0 of \<open>np.array(predictions)\<close>. An
  empty list of predictions is an array of shape (0,), whose reduction is the scalar
  \<open>nan\<close>; prediction vectors of unequal length do not form an array.
\<close>

datatype ndarray = Scalar_nan | Vector "real list"

definition np_mean :: "real list \<Rightarrow> real" where
  "np_mean xs = sum_list xs / real (length xs)"

definition np_std :: "real list \<Rightarrow> real" where
  "np_std xs = sqrt (np_mean (map (\<lambda>x. \<bar>x - np_mean xs\<bar> ^ 2) xs))"

definition axis0 :: "(real list \<Rightarrow> real) \<Rightarrow> real list list \<Rightarrow> error + ndarray" where
  "axis0 f preds =
     (case preds of
        [] \<Rightarrow> Inr Scalar_nan
      | p # ps \<Rightarrow>
          if list_all (\<lambda>r. length r = length p) ps
          then Inr (Vector (map (\<lambda>j. f (map (\<lambda>r. r ! j) preds)) [0..<length p]))
          else Inl ValueError)"

section \<open>The collaborators: float arithmetic, numpy's random state and sklearn\<close>

text \<open>
  \<open>base.py\<close> calls into numpy and sklearn; their code is not part of the repository, so
  they are parameters of the model. \<open>'g\<close> is the state of numpy's global random
  generator, threaded through every call that may consume it; \<open>'x\<close> is a row of a
  data frame, \<open>'y\<close> a label, \<open>'z\<close> a scaled feature array, \<open>'sc\<close> a fitted scaler,
  \<open>'m\<close> a regressor object and \<open>'v\<close> a value of a keyword argument.

  \<^item> \<open>float_mul_int\<close>: the product \<open>f * n\<close> of a float and an int as Python computes
    it, in double precision: the double nearest to the exact product, so that
    \<open>0.7 * 10\<close> is \<open>7.0\<close> and \<open>0.29 * 100\<close> is \<open>28.999999999999996\<close>;
  \<^item> \<open>np_random_shuffle\<close>: \<open>np.random.shuffle(a)\<close>, returning the shuffled array;
  \<^item> \<open>scaler_fit_transform\<close>: \<open>StandardScaler().fit_transform(X)\<close>, returning the fitted
    scaler and the scaled array;
  \<open>scaler_transform\<close>: \<open>scaler.transform(X)\<close>;
  \<^item> \<open>LinearRegression\<close>: the default regressor class;
  \<^item> \<open>model_fit\<close>, \<open>model_predict\<close>: the \<open>fit\<close> and \<open>predict\<close> methods of a regressor;
  \<^item> \<open>cross_val_score\<close>: \<open>cross_val_score(model, X, y, cv=KFold(n, shuffle=s),
    scoring=name)\<close>, the array of per-fold scores.
\<close>

record kfold =
  n_splits :: nat
  shuffle :: bool

record ('g, 'x, 'y, 'z, 'sc, 'm, 'v) collaborators =
  float_mul_int :: "real \<Rightarrow> nat \<Rightarrow> real"
  np_random_shuffle :: "'g \<Rightarrow> nat list \<Rightarrow> nat list \<times> 'g"
  scaler_fit_transform :: "'x list \<Rightarrow> error + ('sc \<times> 'z)"
  scaler_transform :: "'sc \<Rightarrow> 'x list \<Rightarrow> error + 'z"
  LinearRegression :: "(string \<times> 'v) list \<Rightarrow> 'm"
  model_fit :: "'m \<Rightarrow> 'z \<Rightarrow> 'y list \<Rightarrow> 'g \<Rightarrow> (error + 'm) \<times> 'g"
  model_predict :: "'m \<Rightarrow> 'z \<Rightarrow> error + real list"
  cross_val_score ::
    "'m \<Rightarrow> 'z \<Rightarrow> 'y list \<Rightarrow> kfold \<Rightarrow> string \<Rightarrow> 'g \<Rightarrow> (error + real list) \<times> 'g"

section \<open>The committee ensemble \<open>QBC\<close>\<close>

text \<open>
  The attributes of a \<open>QBC\<close> object. \<open>cv_score\<close> is \<open>None\<close> while it holds
  \<open>np.nan\<close>; \<open>X_\<close> and \<open>y_\<close> are the attributes \<open>_X\<close> and \<open>_y\<close>.
\<close>

record ('x, 'y, 'sc, 'm, 'v) QBC =
  n_members :: int
  training_fraction :: real
  ml_algorithm :: "(string \<times> 'v) list \<Rightarrow> 'm"
  ml_algorithm_params :: "(string \<times> 'v) list"
  committee_models :: "('sc \<times> 'm) list"
  trained :: bool
  test_full_model :: bool
  cv_score :: "real option"
  X_ :: "'x list option"
  y_ :: "'y list option"

text \<open>\<open>QBC.__init__\<close>; an argument left out (or falsy) is \<open>None\<close>.\<close>

definition QBC_init ::
  "('g, 'x, 'y, 'z, 'sc, 'm, 'v) collaborators \<Rightarrow> int \<Rightarrow> real \<Rightarrow>
   ((string \<times> 'v) list \<Rightarrow> 'm) option \<Rightarrow> (string \<times> 'v) list option \<Rightarrow> bool \<Rightarrow>
   ('x, 'y, 'sc, 'm, 'v) QBC" where
  "QBC_init E n f alg params tfm =
     \<lparr> n_members = n,
       training_fraction = f,
       ml_algorithm = (case alg of Some a \<Rightarrow> a | None \<Rightarrow> LinearRegression E),
       ml_algorithm_params = (case params of Some p \<Rightarrow> p | None \<Rightarrow> []),
       committee_models = [],
       trained = False,
       test_full_model = tfm,
       cv_score = None,
       X_ = None,
       y_ = None \<rparr>"

subsection \<open>\<open>QBC.predict\<close>\<close>

text \<open>
  The loop of \<open>predict\<close> over \<open>range(n_members)\<close>, with the list
  \<open>committee_predictions\<close> as accumulator.
\<close>

fun predict_loop ::
  "('g, 'x, 'y, 'z, 'sc, 'm, 'v) collaborators \<Rightarrow> ('sc \<times> 'm) list \<Rightarrow> 'x list \<Rightarrow>
   nat list \<Rightarrow> real list list \<Rightarrow> error + real list list" where
  "predict_loop E cm X [] preds = Inr preds"
| "predict_loop E cm X (i # is) preds =
     (case py_index cm i of
        Inl e \<Rightarrow> Inl e
      | Inr (scaler, model) \<Rightarrow>
          (case scaler_transform E scaler X of
             Inl e \<Rightarrow> Inl e
           | Inr Z \<Rightarrow>
               (case model_predict E model Z of
                  Inl e \<Rightarrow> Inl e
                | Inr p \<Rightarrow> predict_loop E cm X is (preds @ [p]))))"

text \<open>\<open>predict\<close> returns the pair \<open>(means, stds)\<close>; \<open>stds\<close> is computed first.\<close>

definition predict ::
  "('g, 'x, 'y, 'z, 'sc, 'm, 'v) collaborators \<Rightarrow> ('x, 'y, 'sc, 'm, 'v) QBC \<Rightarrow> 'x list \<Rightarrow>
   error + (ndarray \<times> ndarray)" where
  "predict E q X =
     (case predict_loop E (committee_models q) X (py_range (n_members q)) [] of
        Inl e \<Rightarrow> Inl e
      | Inr preds \<Rightarrow>
          (case axis0 np_std preds of
             Inl e \<Rightarrow> Inl e
           | Inr stds \<Rightarrow>
               (case axis0 np_mean preds of
                  Inl e \<Rightarrow> Inl e
                | Inr means \<Rightarrow> Inr (means, stds))))"

subsection \<open>\<open>QBC.fit\<close>\<close>

text \<open>
  One member's draw: \<open>a = np.arange(len(X)); np.random.shuffle(a);
  indices = a[:int(training_fraction * len(X))]\<close>. The product is the double-precision
  one.
\<close>

definition draw_indices ::
  "('g, 'x, 'y, 'z, 'sc, 'm, 'v) collaborators \<Rightarrow> real \<Rightarrow> nat \<Rightarrow> 'g \<Rightarrow> nat list \<times> 'g" where
  "draw_indices E f n g =
     (case np_random_shuffle E g [0..<n] of
        (a, g') \<Rightarrow> (py_slice_to (py_int (float_mul_int E f n)) a, g'))"

text \<open>
  The first loop of \<open>fit\<close>: for each member, draw and append \<open>X.iloc[indices]\<close> and
  \<open>y.iloc[indices]\<close> to \<open>split_X\<close> and \<open>split_y\<close>.
\<close>

fun split_loop ::
  "('g, 'x, 'y, 'z, 'sc, 'm, 'v) collaborators \<Rightarrow> real \<Rightarrow> 'x list \<Rightarrow> 'y list \<Rightarrow> nat list \<Rightarrow>
   'x list list \<Rightarrow> 'y list list \<Rightarrow> 'g \<Rightarrow> (error + ('x list list \<times> 'y list list)) \<times> 'g" where
  "split_loop E f X y [] split_X split_y g = (Inr (split_X, split_y), g)"
| "split_loop E f X y (i # is) split_X split_y g =
     (case draw_indices E f (length X) g of
        (indices, g') \<Rightarrow>
          (case iloc X indices of
             Inl e \<Rightarrow> (Inl e, g')
           | Inr Xi \<Rightarrow>
               (case iloc y indices of
                  Inl e \<Rightarrow> (Inl e, g')
                | Inr yi \<Rightarrow> split_loop E f X y is (split_X @ [Xi]) (split_y @ [yi]) g')))"

text \<open>
  The second loop of \<open>fit\<close>: a fresh scaler and a fresh model per member, appended to
  \<open>committee_models\<close> as the loop goes. The result is the exception raised, if any,
  the object as the loop left it, and the random state.
\<close>

fun member_loop ::
  "('g, 'x, 'y, 'z, 'sc, 'm, 'v) collaborators \<Rightarrow> 'x list list \<Rightarrow> 'y list list \<Rightarrow> nat list \<Rightarrow>
   ('x, 'y, 'sc, 'm, 'v) QBC \<Rightarrow> 'g \<Rightarrow> error option \<times> ('x, 'y, 'sc, 'm, 'v) QBC \<times> 'g" where
  "member_loop E split_X split_y [] q g = (None, q, g)"
| "member_loop E split_X split_y (i # is) q g =
     (case py_index split_X i of
        Inl e \<Rightarrow> (Some e, q, g)
      | Inr Xi \<Rightarrow>
          (case scaler_fit_transform E Xi of
             Inl e \<Rightarrow> (Some e, q, g)
           | Inr (scaler, Z) \<Rightarrow>
               (case py_index split_y i of
                  Inl e \<Rightarrow> (Some e, q, g)
                | Inr yi \<Rightarrow>
                    (case model_fit E (ml_algorithm q (ml_algorithm_params q)) Z yi g of
                       (Inl e, g') \<Rightarrow> (Some e, q, g')
                     | (Inr model, g') \<Rightarrow>
                         member_loop E split_X split_y is
                           (q\<lparr>committee_models := committee_models q @ [(scaler, model)]\<rparr>) g'))))"

text \<open>
  The branch \<open>if self.test_full_model\<close>; \<open>X\<close> and \<open>y\<close> are \<open>self._X\<close> and \<open>self._y\<close>,
  which \<open>fit\<close> has just set to its arguments. \<open>np.mean\<close> of an empty score array is
  \<open>nan\<close>.
\<close>

definition full_model ::
  "('g, 'x, 'y, 'z, 'sc, 'm, 'v) collaborators \<Rightarrow> ('x, 'y, 'sc, 'm, 'v) QBC \<Rightarrow> 'x list \<Rightarrow>
   'y list \<Rightarrow> 'g \<Rightarrow> error option \<times> ('x, 'y, 'sc, 'm, 'v) QBC \<times> 'g" where
  "full_model E q X y g =
     (case scaler_fit_transform E X of
        Inl e \<Rightarrow> (Some e, q, g)
      | Inr (overall_scaler, Z) \<Rightarrow>
          (case model_fit E (ml_algorithm q (ml_algorithm_params q)) Z y g of
             (Inl e, g') \<Rightarrow> (Some e, q, g')
           | (Inr overall_model, g') \<Rightarrow>
               (case cross_val_score E overall_model Z y \<lparr>n_splits = 5, shuffle = True\<rparr>
                       ''neg_mean_absolute_error'' g' of
                  (Inl e, g'') \<Rightarrow> (Some e, q, g'')
                | (Inr scores, g'') \<Rightarrow>
                    (None,
                     q\<lparr>cv_score := (if scores = [] then None else Some (np_mean scores * - 1))\<rparr>,
                     g''))))"

text \<open>
  \<open>fit\<close> returns the exception raised (\<open>None\<close> when it returns normally), the object
  as the call left it, and the random state.
\<close>

definition fit ::
  "('g, 'x, 'y, 'z, 'sc, 'm, 'v) collaborators \<Rightarrow> ('x, 'y, 'sc, 'm, 'v) QBC \<Rightarrow> 'x list \<Rightarrow>
   'y list \<Rightarrow> 'g \<Rightarrow> error option \<times> ('x, 'y, 'sc, 'm, 'v) QBC \<times> 'g" where
  "fit E q X y g =
     (let q1 = q\<lparr>X_ := Some X, y_ := Some y\<rparr> in
      case split_loop E (training_fraction q1) X y (py_range (n_members q1)) [] [] g of
        (Inl e, g1) \<Rightarrow> (Some e, q1, g1)
      | (Inr (split_X, split_y), g1) \<Rightarrow>
          (case member_loop E split_X split_y (py_range (n_members q1))
                  (q1\<lparr>committee_models := []\<rparr>) g1 of
             (Some e, q2, g2) \<Rightarrow> (Some e, q2, g2)
           | (None, q2, g2) \<Rightarrow>
               (let q3 = q2\<lparr>trained := True\<rparr> in
                if test_full_model q3 then full_model E q3 X y g2 else (None, q3, g2))))"

text \<open>Fit, then predict, as one run from a random state.\<close>

definition fit_predict ::
  "('g, 'x, 'y, 'z, 'sc, 'm, 'v) collaborators \<Rightarrow> ('x, 'y, 'sc, 'm, 'v) QBC \<Rightarrow> 'x list \<Rightarrow>
   'y list \<Rightarrow> 'x list \<Rightarrow> 'g \<Rightarrow> error + (ndarray \<times> ndarray)" where
  "fit_predict E q X y X_new g =
     (case fit E q X y g of
        (Some e, q', g') \<Rightarrow> Inl e
      | (None, q', g') \<Rightarrow> predict E q' X_new)"

text \<open>The member draws of one \<open>fit\<close> call, in order: what the first loop draws.\<close>

fun member_draws ::
  "('g, 'x, 'y, 'z, 'sc, 'm, 'v) collaborators \<Rightarrow> real \<Rightarrow> nat \<Rightarrow> nat \<Rightarrow> 'g \<Rightarrow> nat list list" where
  "member_draws E f n 0 g = []"
| "member_draws E f n (Suc k) g =
     (case draw_indices E f n g of (indices, g') \<Rightarrow> indices # member_draws E f n k g')"

text \<open>
  The random state in which the shuffle of member \<open>i\<close> starts, in a fit call on \<open>n\<close> rows
  that starts in state \<open>g\<close>: every shuffle starts where the one before it ended.
\<close>

fun shuffle_state ::
  "('g, 'x, 'y, 'z, 'sc, 'm, 'v) collaborators \<Rightarrow> nat \<Rightarrow> 'g \<Rightarrow> nat \<Rightarrow> 'g" where
  "shuffle_state E n g 0 = g"
| "shuffle_state E n g (Suc i) = snd (np_random_shuffle E (shuffle_state E n g i) [0..<n])"

subsection \<open>Simple collaborators, to run the model on\<close>

text \<open>
  A deterministic stand-in for each collaborator, over one real feature per row: the
  float product is the exact one (which is the double-precision product wherever the
  exact product is a double, as for the fractions 1/2, 3/4 and 1 with a few rows), the
  shuffle rotates by a counter that serves as random state, the scaler centres on the
  mean and rejects an empty frame (as sklearn does), the regressor predicts the mean
  label it was fitted on, and cross-validation asks for as many rows as folds.
\<close>

definition rot_shuffle :: "nat \<Rightarrow> nat list \<Rightarrow> nat list \<times> nat" where
  "rot_shuffle g a = (rotate g a, Suc g)"

definition centre_fit_transform :: "real list \<Rightarrow> error + (real \<times> real list)" where
  "centre_fit_transform X =
     (if X = [] then Inl ValueError else Inr (np_mean X, map (\<lambda>x. x - np_mean X) X))"

definition centre_transform :: "real \<Rightarrow> real list \<Rightarrow> error + real list" where
  "centre_transform c X = Inr (map (\<lambda>x. x - c) X)"

definition mean_fit :: "real option \<Rightarrow> real list \<Rightarrow> real list \<Rightarrow> nat \<Rightarrow> (error + real option) \<times> nat" where
  "mean_fit m Z y g =
     (if length Z \<noteq> length y then (Inl ValueError, g) else (Inr (Some (np_mean y)), g))"

definition mean_predict :: "real option \<Rightarrow> real list \<Rightarrow> error + real list" where
  "mean_predict m Z =
     (case m of None \<Rightarrow> Inl NotFittedError | Some c \<Rightarrow> Inr (map (\<lambda>z. c) Z))"

definition flat_cv ::
  "real option \<Rightarrow> real list \<Rightarrow> real list \<Rightarrow> kfold \<Rightarrow> string \<Rightarrow> nat \<Rightarrow> (error + real list) \<times> nat" where
  "flat_cv m Z y cv scoring g =
     (if length Z < n_splits cv then (Inl ValueError, g)
      else (Inr (replicate (n_splits cv) (- 1)), if shuffle cv then Suc g else g))"

definition E0 :: "(nat, real, real, real list, real, real option, unit) collaborators" where
  "E0 = \<lparr> float_mul_int = (\<lambda>f n. f * real n),
          np_random_shuffle = rot_shuffle,
          scaler_fit_transform = centre_fit_transform,
          scaler_transform = centre_transform,
          LinearRegression = (\<lambda>params. None),
          model_fit = mean_fit,
          model_predict = mean_predict,
          cross_val_score = flat_cv \<rparr>"

subsection \<open>Contracts and notions the statements use\<close>

text \<open>
  The contract of \<open>np.random.shuffle\<close>: the result is a rearrangement of the array,
  whatever the random state.
\<close>

definition shuffle_permutes :: "('g, 'x, 'y, 'z, 'sc, 'm, 'v) collaborators \<Rightarrow> bool" where
  "shuffle_permutes E \<longleftrightarrow> (\<forall>g a. mset (fst (np_random_shuffle E g a)) = mset a)"

text \<open>
  A pair \<open>[scaler, model]\<close> is fitted on a subsample when the scaler is the one
  \<open>fit_transform\<close> returns on the subsample's rows, and the model is what fitting a
  fresh \<open>ml_algorithm(**ml_algorithm_params)\<close> on the scaled rows and the subsample's
  labels returns.
\<close>

definition fitted_on ::
  "('g, 'x, 'y, 'z, 'sc, 'm, 'v) collaborators \<Rightarrow> ('x, 'y, 'sc, 'm, 'v) QBC \<Rightarrow> 'x list \<Rightarrow>
   'y list \<Rightarrow> 'sc \<times> 'm \<Rightarrow> bool" where
  "fitted_on E q Xi yi p \<longleftrightarrow>
     (\<exists>Z g. scaler_fit_transform E Xi = Inr (fst p, Z) \<and>
        fst (model_fit E (ml_algorithm q (ml_algorithm_params q)) Z yi g) = Inr (snd p))"

text \<open>One member's prediction: its own scaler's transform, then its model.\<close>

definition member_predict ::
  "('g, 'x, 'y, 'z, 'sc, 'm, 'v) collaborators \<Rightarrow> 'x list \<Rightarrow> 'sc \<times> 'm \<Rightarrow> error + real list" where
  "member_predict E X p =
     (case scaler_transform E (fst p) X of
        Inl e \<Rightarrow> Inl e
      | Inr Z \<Rightarrow> model_predict E (snd p) Z)"

text \<open>Two objects built with the same constructor arguments, whatever happened since.\<close>

definition same_configuration ::
  "('x, 'y, 'sc, 'm, 'v) QBC \<Rightarrow> ('x, 'y, 'sc, 'm, 'v) QBC \<Rightarrow> bool" where
  "same_configuration q1 q2 \<longleftrightarrow>
     n_members q1 = n_members q2 \<and> training_fraction q1 = training_fraction q2 \<and>
     ml_algorithm q1 = ml_algorithm q2 \<and> ml_algorithm_params q1 = ml_algorithm_params q2 \<and>
     test_full_model q1 = test_full_model q2"


text \<open>
  The second and third stage of fit, after the draws: what they return depends on the
  object only through its constructor arguments.
\<close>

definition fit_tail ::
  "('g, 'x, 'y, 'z, 'sc, 'm, 'v) collaborators \<Rightarrow> ('x, 'y, 'sc, 'm, 'v) QBC \<Rightarrow> 'x list \<Rightarrow>
   'y list \<Rightarrow> 'x list list \<Rightarrow> 'y list list \<Rightarrow> 'g \<Rightarrow>
   error option \<times> ('x, 'y, 'sc, 'm, 'v) QBC \<times> 'g" where
  "fit_tail E q X y sX sy g1 =
     (case member_loop E sX sy (py_range (n_members q))
                  (q\<lparr>X_ := Some X, y_ := Some y, committee_models := []\<rparr>) g1 of
             (Some e, q2, g2) \<Rightarrow> (Some e, q2, g2)
           | (None, q2, g2) \<Rightarrow>
               if test_full_model q2 then full_model E (q2\<lparr>trained := True\<rparr>) X y g2
               else (None, q2\<lparr>trained := True\<rparr>, g2))"

section \<open>The baseline agent \<open>RandomAgent\<close>\<close>

text \<open>
  A data frame with an index: the list of its rows, each with its index label.
  \<open>frame.sample(n)\<close> (pandas, \<open>replace=False\<close> by default) rejects a negative \<open>n\<close> and
  an \<open>n\<close> larger than the frame, and otherwise takes the rows at the first \<open>n\<close>
  positions of a random permutation of all positions, which is how numpy's
  \<open>choice(len, size=n, replace=False)\<close> draws them. \<open>.index.tolist()\<close> is the list of
  the labels.
\<close>

definition sample ::
  "('g, 'x, 'y, 'z, 'sc, 'm, 'v) collaborators \<Rightarrow> ('k \<times> 'r) list \<Rightarrow> int \<Rightarrow> 'g \<Rightarrow>
   (error + ('k \<times> 'r) list) \<times> 'g" where
  "sample E frame n g =
     (if n < 0 then (Inl ValueError, g)
      else if int (length frame) < n then (Inl ValueError, g)
      else (case np_random_shuffle E g [0..<length frame] of
              (a, g') \<Rightarrow> (iloc frame (take (nat n) a), g')))"

definition index_tolist :: "('k \<times> 'r) list \<Rightarrow> 'k list" where
  "index_tolist frame = map fst frame"

record ('k, 'r) RandomAgent =
  agent_candidate_data :: "('k \<times> 'r) list option"
  agent_seed_data :: "('k \<times> 'r) list option"
  n_query :: int
  agent_cv_score :: "real option"

definition RandomAgent_init ::
  "('k \<times> 'r) list option \<Rightarrow> ('k \<times> 'r) list option \<Rightarrow> int \<Rightarrow> ('k, 'r) RandomAgent" where
  "RandomAgent_init cand seed n =
     \<lparr> agent_candidate_data = cand, agent_seed_data = seed, n_query = n,
       agent_cv_score = None \<rparr>"

text \<open>\<open>return candidate_data.sample(self.n_query).index.tolist()\<close>\<close>

definition get_hypotheses ::
  "('g, 'x, 'y, 'z, 'sc, 'm, 'v) collaborators \<Rightarrow> ('k, 'r) RandomAgent \<Rightarrow> ('k \<times> 'r) list \<Rightarrow>
   ('k \<times> 'r) list option \<Rightarrow> 'g \<Rightarrow> (error + 'k list) \<times> 'g" where
  "get_hypotheses E agent candidate_data seed_data g =
     (case sample E candidate_data (n_query agent) g of
        (Inl e, g') \<Rightarrow> (Inl e, g')
      | (Inr rows, g') \<Rightarrow> (Inr (index_tolist rows), g'))"

section \<open>The campaign loop controller\<close>

text \<open>
  Modelled from the spec: the class \<open>camd.loop.Loop\<close>, the Campaign Loop Controller of
  the specification, is not among the source files; only its test
  \<open>camd/tests/test_atf_examples.py\<close> and a script that calls it are. The records and
  operations below follow sections 3, 4.2 and 7 of the specification, and the test
  where the specification is silent.
\<close>

datatype controller_error = ConfigurationError | NotInitializedError | AgentError

text \<open>
  Modelled from the spec: the persisted Campaign State, a snapshot of the iteration
  count, the seed and candidate partition and the history. A row is a key with its
  record; a history entry holds the selected keys, the experiment's outputs (a labelled
  record, or \<open>None\<close> for a failure) and the analyzer's summary.
\<close>

record ('k, 'r, 's) snapshot =
  snap_iteration :: nat
  snap_seed_data :: "('k \<times> 'r) list"
  snap_candidate_data :: "('k \<times> 'r) list"
  snap_history :: "('k list \<times> ('k \<times> 'r option) list \<times> 's) list"

text \<open>
  Modelled from the spec: the Controller with its Campaign State. \<open>create_seed\<close> is the
  caller's seed-creation request, \<open>None\<close> when it is absent or cleared (falsy);
  \<open>supplied_seed\<close> is the seed data the caller passed, if any.
\<close>

record ('k, 'r, 's) controller =
  iteration :: nat
  seed_data :: "('k \<times> 'r) list"
  candidate_data :: "('k \<times> 'r) list"
  history :: "('k list \<times> ('k \<times> 'r option) list \<times> 's) list"
  initialized :: bool
  create_seed :: "nat option"
  supplied_seed :: "('k \<times> 'r) list option"

text \<open>
  Modelled from the spec: the collaborators of section 6. The agent's selection is
  \<open>None\<close> when the agent raises; the experiment maps each selected key to a labelled
  record or to \<open>None\<close>, the failure marker; \<open>permute\<close> is the random source of the seed
  draw.
\<close>

record ('k, 'r, 's, 'g) campaign =
  select :: "('k \<times> 'r) list \<Rightarrow> ('k \<times> 'r) list \<Rightarrow> 'g \<Rightarrow> 'k list option \<times> 'g"
  evaluate :: "('k \<times> 'r) list \<Rightarrow> 'k \<Rightarrow> 'r option"
  analyze ::
    "('k \<times> 'r) list \<Rightarrow> ('k \<times> 'r) list \<Rightarrow> ('k list \<times> ('k \<times> 'r option) list \<times> 's) list \<Rightarrow> 's"
  permute :: "'g \<Rightarrow> nat list \<Rightarrow> nat list \<times> 'g"

definition snapshot_of :: "('k, 'r, 's) controller \<Rightarrow> ('k, 'r, 's) snapshot" where
  "snapshot_of c =
     \<lparr> snap_iteration = iteration c, snap_seed_data = seed_data c,
       snap_candidate_data = candidate_data c, snap_history = history c \<rparr>"

text \<open>
  Modelled from the spec: restoring a persisted Campaign State. The iteration count, the
  partition and the history are taken from the snapshot, the controller is initialized,
  and the seed-creation request is cleared: the restored state wins.
\<close>

definition restore ::
  "('k, 'r, 's) snapshot \<Rightarrow> ('k, 'r, 's) controller \<Rightarrow> ('k, 'r, 's) controller" where
  "restore snap c =
     c\<lparr> iteration := snap_iteration snap, seed_data := snap_seed_data snap,
        candidate_data := snap_candidate_data snap, history := snap_history snap,
        initialized := True, create_seed := None \<rparr>"

text \<open>
  Modelled from the spec: constructing a Controller over a campaign location. In the
  continuation scenario of section 8, and in the test, a controller constructed over a
  location that holds a persisted state is initialized at once, with the persisted
  iteration count, before any call of \<open>initialize()\<close>.
\<close>

definition Controller_init ::
  "('k \<times> 'r) list \<Rightarrow> ('k \<times> 'r) list option \<Rightarrow> nat option \<Rightarrow> ('k, 'r, 's) snapshot option \<Rightarrow>
   ('k, 'r, 's) controller" where
  "Controller_init pool seed request store =
     (let c = \<lparr> iteration = 0, seed_data = [], candidate_data = pool, history = [],
                 initialized = False, create_seed = request, supplied_seed = seed \<rparr>
      in case store of None \<Rightarrow> c | Some snap \<Rightarrow> restore snap c)"

text \<open>
  Modelled from the spec: \<open>initialize()\<close>, section 4.2. A persisted state is restored;
  else a seed of the requested size is drawn without replacement from the pool, the
  rest stays candidate, and the state is persisted (the test finds the request cleared
  after this path too); else the seed data the caller supplied is adopted; else, or when
  seed and candidates would overlap, the call fails with \<open>ConfigurationError\<close>.
\<close>

definition initialize ::
  "('k, 'r, 's, 'g) campaign \<Rightarrow> ('k, 'r, 's) controller \<Rightarrow> ('k, 'r, 's) snapshot option \<Rightarrow> 'g \<Rightarrow>
   (controller_error + ('k, 'r, 's) controller \<times> ('k, 'r, 's) snapshot option) \<times> 'g" where
  "initialize C c store g =
     (case store of
        Some snap \<Rightarrow> (Inr (restore snap c, store), g)
      | None \<Rightarrow>
          (case create_seed c of
             Some n \<Rightarrow>
               if length (candidate_data c) < n then (Inl ConfigurationError, g)
               else
                 (case permute C g [0..<length (candidate_data c)] of
                    (a, g') \<Rightarrow>
                      (case iloc (candidate_data c) (take n a) of
                         Inl e \<Rightarrow> (Inl ConfigurationError, g')
                       | Inr rows \<Rightarrow>
                           (let c' = c\<lparr> iteration := 0, seed_data := rows,
                                       candidate_data :=
                                         filter (\<lambda>row. row \<notin> set rows) (candidate_data c),
                                       initialized := True, create_seed := None \<rparr>
                            in (Inr (c', Some (snapshot_of c')), g'))))
           | None \<Rightarrow>
               (case supplied_seed c of
                  Some seed \<Rightarrow>
                    if set (map fst seed) \<inter> set (map fst (candidate_data c)) = {}
                    then (Inr (c\<lparr> iteration := 0, seed_data := seed, initialized := True \<rparr>,
                               store), g)
                    else (Inl ConfigurationError, g)
                | None \<Rightarrow> (Inl ConfigurationError, g))))"

text \<open>
  Modelled from the spec: \<open>run()\<close>, one iteration, section 4.2. It needs an initialized
  controller; the agent's selection must consist of candidate keys; the selected rows
  leave the candidates, those the experiment labelled join the seed data; the analyzer's
  summary is appended to the history, the iteration count goes up by one and the state
  is persisted. On an error nothing changes.
\<close>

definition run ::
  "('k, 'r, 's, 'g) campaign \<Rightarrow> ('k, 'r, 's) controller \<Rightarrow> ('k, 'r, 's) snapshot option \<Rightarrow> 'g \<Rightarrow>
   (controller_error + ('k, 'r, 's) controller \<times> ('k, 'r, 's) snapshot option) \<times> 'g" where
  "run C c store g =
     (if \<not> initialized c then (Inl NotInitializedError, g)
      else
        (case select C (candidate_data c) (seed_data c) g of
           (None, g') \<Rightarrow> (Inl AgentError, g')
         | (Some keys, g') \<Rightarrow>
             if \<not> set keys \<subseteq> set (map fst (candidate_data c)) then (Inl AgentError, g')
             else
               (let selected = filter (\<lambda>row. fst row \<in> set keys) (candidate_data c);
                    results = evaluate C selected;
                    labelled = concat (map (\<lambda>row. case results (fst row) of
                                                      None \<Rightarrow> [] | Some r \<Rightarrow> [(fst row, r)])
                                          selected);
                    seed' = seed_data c @ labelled;
                    candidates' = filter (\<lambda>row. fst row \<notin> set keys) (candidate_data c);
                    summary = analyze C seed' candidates' (history c);
                    c' = c\<lparr> iteration := iteration c + 1, seed_data := seed',
                            candidate_data := candidates',
                            history := history c @
                              [(keys, map (\<lambda>row. (fst row, results (fst row))) selected,
                                summary)] \<rparr>
                in (Inr (c', Some (snapshot_of c')), g'))))"

text \<open>
  An agent and an experiment to run the controller on: the agent asks for the first
  candidate, the experiment labels every row with itself, the analyzer counts the
  seed rows.
\<close>

definition C0 :: "(nat, nat, nat, nat) campaign" where
  "C0 = \<lparr> select = (\<lambda>candidates seed g. (Some (map fst (take 1 candidates)), g)),
          evaluate = (\<lambda>rows k. map_of rows k),
          analyze = (\<lambda>seed candidates history. length seed),
          permute = (\<lambda>g a. (rotate g a, Suc g)) \<rparr>"

text \<open>
  A persisted state after three iterations, and a controller whose caller asks for a
  seed of two rows.
\<close>

definition snap0 :: "(nat, nat, nat) snapshot" where
  "snap0 = \<lparr> snap_iteration = 3, snap_seed_data = [(1, 1)],
             snap_candidate_data = [(2, 2), (3, 3)], snap_history = [] \<rparr>"

definition c0 :: "(nat, nat, nat) controller" where
  "c0 = Controller_init [(1, 1), (2, 2), (3, 3)] None (Some 2) None"

section \<open>Properties of the committee ensemble\<close>

subsection \<open>Ranges\<close>

lemma py_range_pos: "0 < n \<Longrightarrow> py_range n = 0 # [1..<nat n]"
  by (simp add: py_range_def upt_conv_Cons)

lemma py_range_nonpos: "n \<le> 0 \<Longrightarrow> py_range n = []"
  by (simp add: py_range_def)

subsection \<open>Predicting before fitting\<close>

text \<open>
  C2 (as the code has it). \<open>predict\<close> never looks at \<open>trained\<close>. On an object that
  \<open>__init__\<close> has just built, \<open>committee_models\<close> is empty: with at least one member
  asked for, the first \<open>self.committee_models[0]\<close> raises \<open>IndexError\<close>, so no pair is
  returned; with \<open>n_members \<le> 0\<close> the loop is empty and the pair of the two \<open>nan\<close>
  reductions of an empty array is returned.
\<close>

theorem predict_unfitted:
  "predict E (QBC_init E n f alg params tfm) X =
     (if 0 < n then Inl IndexError else Inr (Scalar_nan, Scalar_nan))"
  by (simp add: predict_def QBC_init_def py_range_pos py_range_nonpos py_index_def axis0_def)

theorem predict_unfitted_witness:
  "predict E0 (QBC_init E0 3 (1/2) None None True) [1, 2] = Inl IndexError"
  using predict_unfitted [of E0 3 "1/2" None None True "[1, 2]"] by simp

text \<open>
  C2 as stated fails: the error of an unfitted one-member ensemble is not
  \<open>NotFittedError\<close>.
\<close>

theorem predict_unfitted_counterexample:
  "predict E0 (QBC_init E0 1 (1/2) None None True) [1, 2] \<noteq> Inl NotFittedError"
  by (simp add: predict_def QBC_init_def py_range_pos py_index_def)

subsection \<open>The random draw\<close>

lemma shuffle_facts:
  assumes "shuffle_permutes E" and "np_random_shuffle E g [0..<n] = (a, g')"
  shows "distinct a" and "set a = {..<n}" and "length a = n"
proof -
  have "mset (fst (np_random_shuffle E g [0..<n])) = mset [0..<n]"
    using assms(1) unfolding shuffle_permutes_def by blast
  then have m: "mset a = mset [0..<n]"
    by (simp add: assms(2))
  have "distinct a = distinct [0..<n]"
    by (rule mset_eq_imp_distinct_iff [OF m])
  then show "distinct a" by simp
  have "set a = set [0..<n]"
    by (rule mset_eq_setD [OF m])
  then show "set a = {..<n}" by (simp add: atLeast0LessThan)
  have "length a = length [0..<n]"
    by (rule mset_eq_length [OF m])
  then show "length a = n" by simp
qed

lemma draw_indices_distinct:
  assumes "shuffle_permutes E"
  shows "distinct (fst (draw_indices E f n g)) \<and> set (fst (draw_indices E f n g)) \<subseteq> {..<n}"
proof -
  obtain a g' where s: "np_random_shuffle E g [0..<n] = (a, g')" by (cases "np_random_shuffle E g [0..<n]")
  note F = shuffle_facts [OF assms s]
  have "set (py_slice_to k a) \<subseteq> set a" for k
    by (auto simp: py_slice_to_def dest: in_set_takeD)
  moreover have "distinct (py_slice_to k a)" for k
    using F(1) by (simp add: py_slice_to_def)
  ultimately show ?thesis using F(2) by (simp add: draw_indices_def s)
qed

lemma draw_indices_length:
  assumes "shuffle_permutes E"
  shows "length (fst (draw_indices E f n g)) =
           (if 0 \<le> py_int (float_mul_int E f n) then min (nat (py_int (float_mul_int E f n))) n
            else n - nat (- py_int (float_mul_int E f n)))"
proof -
  obtain a g' where s: "np_random_shuffle E g [0..<n] = (a, g')" by (cases "np_random_shuffle E g [0..<n]")
  note F = shuffle_facts [OF assms(1) s]
  have "length (py_slice_to k a) = (if 0 \<le> k then min (nat k) n else n - nat (- k))" for k
  proof (cases "0 \<le> k")
    case True
    then show ?thesis using F(3) by (simp add: py_slice_to_def min.commute)
  next
    case False
    then show ?thesis using F(3) by (simp add: py_slice_to_def)
  qed
  then show ?thesis
    by (simp add: draw_indices_def s)
qed

lemma shuffle_state_shift:
  "shuffle_state E n (snd (np_random_shuffle E g [0..<n])) j = shuffle_state E n g (Suc j)"
  by (induction j) simp_all

lemma member_draws_nth:
  "i < k \<Longrightarrow>
   member_draws E f n k g ! i =
     py_slice_to (py_int (float_mul_int E f n))
       (fst (np_random_shuffle E (shuffle_state E n g i) [0..<n]))"
proof (induction k arbitrary: g i)
  case 0
  then show ?case by simp
next
  case (Suc k)
  obtain a g' where s: "np_random_shuffle E g [0..<n] = (a, g')"
    by (cases "np_random_shuffle E g [0..<n]")
  then have d: "draw_indices E f n g = (py_slice_to (py_int (float_mul_int E f n)) a, g')"
    by (simp add: draw_indices_def)
  show ?case
  proof (cases i)
    case 0
    then show ?thesis by (simp add: d s)
  next
    case (Suc j)
    with Suc.prems have "j < k" by simp
    from Suc.IH [OF this, of g']
    have "member_draws E f n k g' ! j =
            py_slice_to (py_int (float_mul_int E f n))
              (fst (np_random_shuffle E (shuffle_state E n g' j) [0..<n]))" .
    moreover have "shuffle_state E n g' j = shuffle_state E n g (Suc j)"
      using shuffle_state_shift [of E n g j] s by simp
    ultimately show ?thesis
      using Suc by (simp add: d del: shuffle_state.simps)
  qed
qed

lemma member_draws_length: "length (member_draws E f n k g) = k"
  by (induction k arbitrary: g) (auto split: prod.splits)

lemma split_loop_ok:
  "split_loop E f X y is sX sy g = (Inr (sX', sy'), g') \<Longrightarrow>
     sX' = sX @ map (\<lambda>I. map (\<lambda>i. X ! i) I) (member_draws E f (length X) (length is) g) \<and>
     sy' = sy @ map (\<lambda>I. map (\<lambda>i. y ! i) I) (member_draws E f (length X) (length is) g)"
proof (induction "is" arbitrary: sX sy g)
  case Nil then show ?case by simp
next
  case (Cons i "is")
  obtain J g1 where d: "draw_indices E f (length X) g = (J, g1)" by (cases "draw_indices E f (length X) g")
  from Cons.prems d obtain Xi yi where
    x: "iloc X J = Inr Xi" and y: "iloc y J = Inr yi"
    and r: "split_loop E f X y is (sX @ [Xi]) (sy @ [yi]) g1 = (Inr (sX', sy'), g')"
    by (auto split: sum.splits)
  have "Xi = map (\<lambda>i. X ! i) J" "yi = map (\<lambda>i. y ! i) J"
    using x y by (auto simp: iloc_def split: if_splits)
  then show ?case using Cons.IH [OF r] d by simp
qed

lemma fitted_on_frame [simp]:
  "fitted_on E (q\<lparr>committee_models := c\<rparr>) = fitted_on E q"
  by (simp add: fitted_on_def fun_eq_iff)

lemma member_loop_ok:
  "member_loop E sX sy is q g = (None, q', g') \<Longrightarrow>
     \<exists>C. committee_models q' = committee_models q @ C \<and>
         list_all2 (\<lambda>i p. i < length sX \<and> i < length sy \<and> fitted_on E q (sX ! i) (sy ! i) p) is C"
proof (induction "is" arbitrary: q g)
  case Nil then show ?case by simp
next
  case (Cons i "is")
  from Cons.prems obtain sc Z m g1 where
    i: "i < length sX" "i < length sy"
    and s: "scaler_fit_transform E (sX ! i) = Inr (sc, Z)"
    and m: "model_fit E (ml_algorithm q (ml_algorithm_params q)) Z (sy ! i) g = (Inr m, g1)"
    and r: "member_loop E sX sy is (q\<lparr>committee_models := committee_models q @ [(sc, m)]\<rparr>) g1 = (None, q', g')"
    by (auto simp: py_index_def split: sum.splits prod.splits if_splits)
  from Cons.IH [OF r] obtain C where
    C: "committee_models q' = (committee_models q @ [(sc, m)]) @ C"
       "list_all2 (\<lambda>i p. i < length sX \<and> i < length sy \<and> fitted_on E q (sX ! i) (sy ! i) p) is C"
    by auto
  have "fitted_on E q (sX ! i) (sy ! i) (sc, m)"
    unfolding fitted_on_def using s m by (intro exI [of _ Z] exI [of _ g]) simp
  then show ?case using C i by (intro exI [of _ "(sc, m) # C"]) simp
qed

lemma member_loop_frame:
  "member_loop E sX sy is q g = (r, q', g') \<Longrightarrow> q' = q\<lparr>committee_models := committee_models q'\<rparr>"
proof (induction "is" arbitrary: q g)
  case Nil then show ?case by simp
next
  case (Cons i "is")
  show ?case
  proof (cases "\<exists>sc m g1. member_loop E sX sy is (q\<lparr>committee_models := committee_models q @ [(sc, m)]\<rparr>) g1 = (r, q', g')")
    case True
    then obtain sc m g1 where "member_loop E sX sy is (q\<lparr>committee_models := committee_models q @ [(sc, m)]\<rparr>) g1 = (r, q', g')" by blast
    from Cons.IH [OF this] show ?thesis by simp
  next
    case False
    with Cons.prems have "q' = q"
      by (auto split: sum.splits prod.splits)
    then show ?thesis by simp
  qed
qed

subsection \<open>The structure of a fit call\<close>

lemma fit_unfold:
  "fit E q X y g =
     (case split_loop E (training_fraction q) X y (py_range (n_members q)) [] [] g of
        (Inl e, g1) \<Rightarrow> (Some e, q\<lparr>X_ := Some X, y_ := Some y\<rparr>, g1)
      | (Inr (sX, sy), g1) \<Rightarrow>
          (case member_loop E sX sy (py_range (n_members q))
                  (q\<lparr>X_ := Some X, y_ := Some y, committee_models := []\<rparr>) g1 of
             (Some e, q2, g2) \<Rightarrow> (Some e, q2, g2)
           | (None, q2, g2) \<Rightarrow>
               if test_full_model q2 then full_model E (q2\<lparr>trained := True\<rparr>) X y g2
               else (None, q2\<lparr>trained := True\<rparr>, g2)))"
  by (simp add: fit_def Let_def split: prod.splits sum.splits option.splits)

lemma full_model_frame:
  "full_model E q X y g = (r, q', g') \<Longrightarrow> q' = q\<lparr>cv_score := cv_score q'\<rparr>"
  by (auto simp: full_model_def split: sum.splits prod.splits)

lemma full_model_ok:
  assumes "full_model E q X y g = (None, q', g')"
  shows "\<exists>sc Z m g1 g2 scores.
           scaler_fit_transform E X = Inr (sc, Z) \<and>
           fst (model_fit E (ml_algorithm q (ml_algorithm_params q)) Z y g1) = Inr m \<and>
           fst (cross_val_score E m Z y \<lparr>n_splits = 5, shuffle = True\<rparr>
                  ''neg_mean_absolute_error'' g2) = Inr scores \<and>
           cv_score q' = (if scores = [] then None else Some (- np_mean scores))"
proof -
  from assms obtain sc Z where s: "scaler_fit_transform E X = Inr (sc, Z)"
    by (auto simp: full_model_def split: sum.splits)
  obtain rm g1 where m0: "model_fit E (ml_algorithm q (ml_algorithm_params q)) Z y g = (rm, g1)"
    by (cases "model_fit E (ml_algorithm q (ml_algorithm_params q)) Z y g")
  with assms s obtain m where m: "rm = Inr m"
    by (auto simp: full_model_def split: sum.splits)
  obtain rc g2 where c0: "cross_val_score E m Z y \<lparr>n_splits = 5, shuffle = True\<rparr>
                  ''neg_mean_absolute_error'' g1 = (rc, g2)"
    by (cases "cross_val_score E m Z y \<lparr>n_splits = 5, shuffle = True\<rparr>
                  ''neg_mean_absolute_error'' g1")
  with assms s m0 m obtain scores where c: "rc = Inr scores"
    by (auto simp: full_model_def split: sum.splits)
  have "cv_score q' = (if scores = [] then None else Some (- np_mean scores))"
    using assms s m0 m c0 c by (auto simp: full_model_def)
  then show ?thesis using s m0 m c0 c
    by (intro exI [of _ sc] exI [of _ Z] exI [of _ m] exI [of _ g] exI [of _ g1] exI [of _ scores]) simp
qed

text \<open>The decomposition of a fit call that returns normally.\<close>

lemma fit_NoneE:
  assumes "fit E q X y g = (None, q', g')"
  obtains sX sy g1 q2 g2 where
    "split_loop E (training_fraction q) X y (py_range (n_members q)) [] [] g = (Inr (sX, sy), g1)"
    "member_loop E sX sy (py_range (n_members q))
        (q\<lparr>X_ := Some X, y_ := Some y, committee_models := []\<rparr>) g1 = (None, q2, g2)"
    "q2 = q\<lparr>X_ := Some X, y_ := Some y, committee_models := committee_models q2\<rparr>"
    "if test_full_model q then full_model E (q2\<lparr>trained := True\<rparr>) X y g2 = (None, q', g')
     else q' = q2\<lparr>trained := True\<rparr> \<and> g' = g2"
proof -
  obtain r1 g1 where s: "split_loop E (training_fraction q) X y (py_range (n_members q)) [] [] g = (r1, g1)"
    by (cases "split_loop E (training_fraction q) X y (py_range (n_members q)) [] [] g")
  with assms obtain sX sy where r1: "r1 = Inr (sX, sy)"
    by (cases r1) (auto simp: fit_unfold)
  obtain r2 q2 g2 where m: "member_loop E sX sy (py_range (n_members q))
        (q\<lparr>X_ := Some X, y_ := Some y, committee_models := []\<rparr>) g1 = (r2, q2, g2)"
    by (metis prod_cases3)
  with assms s r1 have r2: "r2 = None"
    by (cases r2) (auto simp: fit_unfold)
  have f: "q2 = q\<lparr>X_ := Some X, y_ := Some y, committee_models := committee_models q2\<rparr>"
    using member_loop_frame [OF m] by simp
  then have t: "test_full_model q2 = test_full_model q"
    by (cases q) (cases q2, simp)
  have "if test_full_model q then full_model E (q2\<lparr>trained := True\<rparr>) X y g2 = (None, q', g')
     else q' = q2\<lparr>trained := True\<rparr> \<and> g' = g2"
    using assms s r1 m r2 t by (auto simp: fit_unfold)
  then show ?thesis using that s r1 m r2 f by blast
qed

lemma fitted_on_frame2 [simp]:
  "fitted_on E (q\<lparr>X_ := a\<rparr>) = fitted_on E q" "fitted_on E (q\<lparr>y_ := b\<rparr>) = fitted_on E q"
  by (simp_all add: fitted_on_def fun_eq_iff)

lemma py_range_length [simp]: "length (py_range n) = nat n"
  by (simp add: py_range_def)

lemma list_all2_upt_nth:
  assumes "list_all2 (\<lambda>i p. i < length ds \<and> P (ds ! i) p) [0..<n] C" and "length ds = n"
  shows "list_all2 P ds C"
  using assms by (simp add: list_all2_conv_all_nth)

text \<open>What a fit call that returns normally leaves in the object.\<close>

lemma fit_ok_members:
  assumes "fit E q X y g = (None, q', g')"
  shows "trained q'" and "n_members q' = n_members q"
    and "length (committee_models q') = nat (n_members q)"
    and "list_all2 (\<lambda>I p. fitted_on E q (map (\<lambda>i. X ! i) I) (map (\<lambda>i. y ! i) I) p)
           (member_draws E (training_fraction q) (length X) (nat (n_members q)) g)
           (committee_models q')"
proof -
  let ?draws = "member_draws E (training_fraction q) (length X) (nat (n_members q)) g"
  from assms obtain sX sy g1 q2 g2 where
    s: "split_loop E (training_fraction q) X y (py_range (n_members q)) [] [] g = (Inr (sX, sy), g1)"
    and m: "member_loop E sX sy (py_range (n_members q))
        (q\<lparr>X_ := Some X, y_ := Some y, committee_models := []\<rparr>) g1 = (None, q2, g2)"
    and f: "q2 = q\<lparr>X_ := Some X, y_ := Some y, committee_models := committee_models q2\<rparr>"
    and t: "if test_full_model q then full_model E (q2\<lparr>trained := True\<rparr>) X y g2 = (None, q', g')
     else q' = q2\<lparr>trained := True\<rparr> \<and> g' = g2"
    by (rule fit_NoneE)
  have q': "q' = q2\<lparr>trained := True, cv_score := cv_score q'\<rparr>"
  proof (cases "test_full_model q")
    case True
    with t have "full_model E (q2\<lparr>trained := True\<rparr>) X y g2 = (None, q', g')" by simp
    from full_model_frame [OF this] show ?thesis by simp
  next
    case False
    with t show ?thesis by simp
  qed
  have c: "committee_models q' = committee_models q2"
    by (subst q') simp
  show "trained q'" by (subst q') simp
  have "n_members q' = n_members q2" by (subst q') simp
  also have "\<dots> = n_members q" by (subst f) simp
  finally show "n_members q' = n_members q" .
  have sX: "sX = map (\<lambda>I. map (\<lambda>i. X ! i) I) ?draws" and sy: "sy = map (\<lambda>I. map (\<lambda>i. y ! i) I) ?draws"
    using split_loop_ok [OF s] by simp_all
  have ld: "length ?draws = nat (n_members q)"
    by (rule member_draws_length)
  from member_loop_ok [OF m] obtain C where
    C: "committee_models q2 = C"
    and L: "list_all2 (\<lambda>i p. i < length sX \<and> i < length sy \<and> fitted_on E q (sX ! i) (sy ! i) p)
              (py_range (n_members q)) C"
    by auto
  have "list_all2 (\<lambda>i p. i < length ?draws \<and>
           fitted_on E q (map (\<lambda>i. X ! i) (?draws ! i)) (map (\<lambda>i. y ! i) (?draws ! i)) p)
         [0..<nat (n_members q)] C"
    using L unfolding py_range_def sX sy
    by (rule list_all2_mono) auto
  then have "list_all2 (\<lambda>I p. fitted_on E q (map (\<lambda>i. X ! i) I) (map (\<lambda>i. y ! i) I) p) ?draws C"
    using ld by (rule list_all2_upt_nth)
  then show "list_all2 (\<lambda>I p. fitted_on E q (map (\<lambda>i. X ! i) I) (map (\<lambda>i. y ! i) I) p)
           ?draws (committee_models q')"
    by (simp add: c C)
  then show "length (committee_models q') = nat (n_members q)"
    using ld by (simp add: list_all2_lengthD [symmetric])
qed

subsection \<open>Running the model on the simple collaborators\<close>

lemma E0_simps [simp]:
  "float_mul_int E0 = (\<lambda>f n. f * real n)"
  "np_random_shuffle E0 = rot_shuffle" "scaler_fit_transform E0 = centre_fit_transform"
  "scaler_transform E0 = centre_transform" "LinearRegression E0 = (\<lambda>params. None)"
  "model_fit E0 = mean_fit" "model_predict E0 = mean_predict" "cross_val_score E0 = flat_cv"
  by (simp_all add: E0_def)

lemma mset_rotate1: "mset (rotate1 xs) = mset xs"
  by (cases xs) simp_all

lemma mset_rotate: "mset (rotate n xs) = mset xs"
  by (induction n) (simp_all add: mset_rotate1)

lemma E0_shuffle_permutes: "shuffle_permutes E0"
  by (simp add: shuffle_permutes_def rot_shuffle_def mset_rotate)

lemma upt_5: "[0..<5] = [0, 1, 2, 3, 4]"
  by (simp add: upt_rec)

lemma fit_example: "fit E0 (QBC_init E0 1 (3/4) None None False) [1, 2, 3, 4, 5] [1, 2, 3, 4, 5] 0 = 
   (None, \<lparr> n_members = 1, training_fraction = 3/4, ml_algorithm = (\<lambda>params. None),
       ml_algorithm_params = [], committee_models = [(2, Some 2)], trained = True,
       test_full_model = False, cv_score = None, X_ = Some [1, 2, 3, 4, 5], y_ = Some [1, 2, 3, 4, 5] \<rparr>, 1)"
  by (simp add: fit_def QBC_init_def py_range_def draw_indices_def rot_shuffle_def py_slice_to_def py_int_def upt_5
      iloc_def py_index_def centre_fit_transform_def mean_fit_def np_mean_def)

lemmas E0_eval = fit_def QBC_init_def py_range_def draw_indices_def rot_shuffle_def py_slice_to_def
  py_int_def iloc_def py_index_def centre_fit_transform_def mean_fit_def np_mean_def
  full_model_def flat_cv_def

lemma upt_4: "[0..<4] = [0, 1, 2, 3]"
  by (simp add: upt_rec)

lemma upt_2: "[0..<2] = [0, 1]"
  by (simp add: upt_rec)

lemma replicate_5: "replicate 5 x = [x, x, x, x, x]"
  by (simp add: numeral_eq_Suc)

lemma fit_example_cv:
  "fit E0 (QBC_init E0 1 (3/4) None None True) [1, 2, 3, 4, 5] [1, 2, 3, 4, 5] 0 =
   (None, \<lparr> n_members = 1, training_fraction = 3/4, ml_algorithm = (\<lambda>params. None),
       ml_algorithm_params = [], committee_models = [(2, Some 2)], trained = True,
       test_full_model = True, cv_score = Some 1, X_ = Some [1, 2, 3, 4, 5],
       y_ = Some [1, 2, 3, 4, 5] \<rparr>, 2)"
  by (simp add: E0_eval upt_5 replicate_5)



lemma fit_example_two:
  "fit E0 (QBC_init E0 2 (1/2) None None False) [1, 2, 3, 4] [1, 2, 3, 4] 0 =
   (None, \<lparr> n_members = 2, training_fraction = 1/2, ml_algorithm = (\<lambda>params. None),
       ml_algorithm_params = [], committee_models = [(3/2, Some (3/2)), (5/2, Some (5/2))],
       trained = True, test_full_model = False, cv_score = None, X_ = Some [1, 2, 3, 4],
       y_ = Some [1, 2, 3, 4] \<rparr>, 2)"
  by (simp add: E0_eval upt_4 upt_2)

lemma member_predict_E0:
  "member_predict E0 X (c, Some a) = Inr (map (\<lambda>z. a) X)"
  by (simp add: member_predict_def centre_transform_def mean_predict_def)

subsection \<open>What fit draws and stores\<close>

text \<open>
  C1 (as the code has it). Let \<open>np.random.shuffle\<close> rearrange its array. A fit call
  that returns normally stores one pair per member, \<open>n_members\<close> pairs. For member \<open>i\<close>
  it has shuffled all row positions afresh, starting in the random state that the
  shuffle of the member before left, and taken the slice \<open>a[:k]\<close> of the shuffled
  positions, where \<open>k = int(training_fraction * len(X))\<close> is the double-precision
  product truncated towards zero, not rounded: these are \<open>k\<close> positions, or all
  \<open>len(X)\<close> when \<open>k\<close> is more (and all but the last \<open>-k\<close> when \<open>k\<close> is negative),
  pairwise distinct within the member's draw. The member's stored pair is a scaler
  fitted on the rows at these positions and a fresh model fitted on the scaled rows and
  the labels at these positions.
\<close>

theorem fit_member_samples:
  fixes E :: "('g, 'x, 'y, 'z, 'sc, 'm, 'v) collaborators"
    and q q' :: "('x, 'y, 'sc, 'm, 'v) QBC"
    and X :: "'x list"
  defines "k \<equiv> py_int (float_mul_int E (training_fraction q) (length X))"
  assumes "shuffle_permutes E"
    and "fit E q X y g = (None, q', g')"
  shows "length (committee_models q') = nat (n_members q) \<and>
         (\<forall>i < nat (n_members q).
            mset (fst (np_random_shuffle E (shuffle_state E (length X) g i) [0..<length X]))
              = mset [0..<length X] \<and>
            length (py_slice_to k
                (fst (np_random_shuffle E (shuffle_state E (length X) g i) [0..<length X])))
              = (if 0 \<le> k then min (nat k) (length X) else length X - nat (- k)) \<and>
            distinct (py_slice_to k
                (fst (np_random_shuffle E (shuffle_state E (length X) g i) [0..<length X]))) \<and>
            set (py_slice_to k
                (fst (np_random_shuffle E (shuffle_state E (length X) g i) [0..<length X])))
              \<subseteq> {..<length X} \<and>
            fitted_on E q
              (map (\<lambda>j. X ! j) (py_slice_to k
                (fst (np_random_shuffle E (shuffle_state E (length X) g i) [0..<length X]))))
              (map (\<lambda>j. y ! j) (py_slice_to k
                (fst (np_random_shuffle E (shuffle_state E (length X) g i) [0..<length X]))))
              (committee_models q' ! i))"
proof (intro conjI allI impI)
  show len: "length (committee_models q') = nat (n_members q)"
    by (rule fit_ok_members(3) [OF assms(3)])
  fix i
  assume i: "i < nat (n_members q)"
  let ?g = "shuffle_state E (length X) g i"
  let ?a = "fst (np_random_shuffle E ?g [0..<length X])"
  let ?draws = "member_draws E (training_fraction q) (length X) (nat (n_members q)) g"
  have s: "np_random_shuffle E ?g [0..<length X] = (?a, snd (np_random_shuffle E ?g [0..<length X]))"
    by simp
  note F = shuffle_facts [OF assms(2) s]
  show "mset ?a = mset [0..<length X]"
    using assms(2) unfolding shuffle_permutes_def by blast
  have d: "draw_indices E (training_fraction q) (length X) ?g
             = (py_slice_to k ?a, snd (np_random_shuffle E ?g [0..<length X]))"
    by (simp add: draw_indices_def k_def split: prod.splits)
  show "length (py_slice_to k ?a)
          = (if 0 \<le> k then min (nat k) (length X) else length X - nat (- k))"
    using draw_indices_length [OF assms(2), of "training_fraction q" "length X" ?g]
    by (simp only: d fst_conv k_def)
  have "distinct (py_slice_to k ?a) \<and> set (py_slice_to k ?a) \<subseteq> {..<length X}"
    using draw_indices_distinct [OF assms(2), of "training_fraction q" "length X" ?g]
    by (simp only: d fst_conv)
  then show "distinct (py_slice_to k ?a)" and "set (py_slice_to k ?a) \<subseteq> {..<length X}"
    by simp_all
  have n: "?draws ! i = py_slice_to k ?a"
    unfolding k_def by (rule member_draws_nth [OF i])
  have "list_all2 (\<lambda>I p. fitted_on E q (map (\<lambda>j. X ! j) I) (map (\<lambda>j. y ! j) I) p)
          ?draws (committee_models q')"
    by (rule fit_ok_members(4) [OF assms(3)])
  then have "i < length ?draws \<Longrightarrow>
      fitted_on E q (map (\<lambda>j. X ! j) (?draws ! i)) (map (\<lambda>j. y ! j) (?draws ! i))
               (committee_models q' ! i)"
    by (rule list_all2_nthD)
  then have "fitted_on E q (map (\<lambda>j. X ! j) (?draws ! i)) (map (\<lambda>j. y ! j) (?draws ! i))
               (committee_models q' ! i)"
    using i by (simp add: member_draws_length)
  then show "fitted_on E q (map (\<lambda>j. X ! j) (py_slice_to k ?a))
               (map (\<lambda>j. y ! j) (py_slice_to k ?a)) (committee_models q' ! i)"
    by (simp only: n)
qed

text \<open>
  Two members on four rows, from the random state 1: the first member is fitted on the
  rows at the positions 1 and 2, the second on the rows at the positions 2 and 3.
\<close>

lemma fit_example_draws:
  "fit E0 (QBC_init E0 2 (1/2) None None False) [1, 2, 3, 4] [10, 20, 30, 40] 1 =
   (None, \<lparr> n_members = 2, training_fraction = 1/2, ml_algorithm = (\<lambda>params. None),
       ml_algorithm_params = [], committee_models = [(5/2, Some 25), (7/2, Some 35)],
       trained = True, test_full_model = False, cv_score = None, X_ = Some [1, 2, 3, 4],
       y_ = Some [10, 20, 30, 40] \<rparr>, 3)"
  by (simp add: E0_eval upt_4 upt_2)

theorem fit_member_samples_witness:
  "shuffle_permutes E0 \<and>
   fit E0 (QBC_init E0 2 (1/2) None None False) [1, 2, 3, 4] [10, 20, 30, 40] 1 =
   (None, \<lparr> n_members = 2, training_fraction = 1/2, ml_algorithm = (\<lambda>params. None),
       ml_algorithm_params = [], committee_models = [(5/2, Some 25), (7/2, Some 35)],
       trained = True, test_full_model = False, cv_score = None, X_ = Some [1, 2, 3, 4],
       y_ = Some [10, 20, 30, 40] \<rparr>, 3) \<and>
   py_int (float_mul_int E0 (1/2) 4) = 2 \<and>
   np_random_shuffle E0 (shuffle_state E0 4 1 0) [0..<4] = ([1, 2, 3, 0], 2) \<and>
   np_random_shuffle E0 (shuffle_state E0 4 1 1) [0..<4] = ([2, 3, 0, 1], 3) \<and>
   fitted_on E0 (QBC_init E0 2 (1/2) None None False) [2, 3] [20, 30] (5/2, Some 25) \<and>
   fitted_on E0 (QBC_init E0 2 (1/2) None None False) [3, 4] [30, 40] (7/2, Some 35)"
proof -
  let ?Q = "QBC_init E0 2 (1/2) None None False :: (real, real, real, real option, unit) QBC"
  have k: "py_int (float_mul_int E0 (1/2) 4) = 2"
    by (simp add: py_int_def)
  have s0: "np_random_shuffle E0 (shuffle_state E0 4 1 0) [0..<4] = ([1, 2, 3, 0], 2)"
    by (simp add: rot_shuffle_def upt_4)
  have s1: "np_random_shuffle E0 (shuffle_state E0 4 1 1) [0..<4] = ([2, 3, 0, 1], 3)"
    by (simp add: rot_shuffle_def upt_4)
  have n: "training_fraction ?Q = 1/2" "nat (n_members ?Q) = 2"
    by (simp_all add: QBC_init_def)
  have l: "length [1, 2, 3, 4 :: real] = 4"
    by simp
  note T = fit_member_samples [OF E0_shuffle_permutes fit_example_draws, THEN conjunct2,
      unfolded n l k, rule_format]
  have "fitted_on E0 ?Q [2, 3] [20, 30] (5/2, Some 25)"
    using T [of 0] by (simp add: rot_shuffle_def upt_4 py_slice_to_def)
  moreover have "fitted_on E0 ?Q [3, 4] [30, 40] (7/2, Some 35)"
    using T [of 1] by (simp add: rot_shuffle_def upt_4 py_slice_to_def)
  ultimately show ?thesis
    by (intro conjI E0_shuffle_permutes fit_example_draws k s0 s1)
qed

text \<open>
  C1 as stated fails on the number of positions drawn: with a fraction of 3/4 and five
  rows the member is fitted on the three rows 1, 2, 3 (mean 2), where rounding 3.75
  would give four.
\<close>

theorem fit_sample_size_counterexample:
  "fst (fit E0 (QBC_init E0 1 (3/4) None None False) [1, 2, 3, 4, 5] [1, 2, 3, 4, 5] 0) = None \<and>
   committee_models
     (fst (snd (fit E0 (QBC_init E0 1 (3/4) None None False) [1, 2, 3, 4, 5] [1, 2, 3, 4, 5] 0)))
     = [(2, Some 2)] \<and>
   member_draws E0 (3/4) 5 1 0 = [[0, 1, 2]] \<and>
   length [0, 1, 2 :: nat] \<noteq> nat (round ((3/4 :: real) * 5))"
proof -
  have "round ((3/4 :: real) * 5) = (4 :: int)"
    by (simp add: round_def)
  moreover have "member_draws E0 (3/4) 5 (Suc 0) 0 = [[0, 1, 2]]"
    by (simp add: draw_indices_def rot_shuffle_def py_slice_to_def py_int_def upt_5)
  ultimately show ?thesis
    by (simp add: fit_example)
qed

subsection \<open>Fit depends on the object only through its constructor arguments\<close>

lemma member_loop_indep:
  assumes "ml_algorithm q2 = ml_algorithm q1"
    and "ml_algorithm_params q2 = ml_algorithm_params q1"
    and "committee_models q2 = committee_models q1"
  shows "fst (member_loop E sX sy is q2 g) = fst (member_loop E sX sy is q1 g) \<and>
         committee_models (fst (snd (member_loop E sX sy is q2 g)))
           = committee_models (fst (snd (member_loop E sX sy is q1 g))) \<and>
         snd (snd (member_loop E sX sy is q2 g)) = snd (snd (member_loop E sX sy is q1 g))"
  using assms
proof (induction "is" arbitrary: q1 q2 g)
  case Nil
  then show ?case by simp
next
  case (Cons i "is")
  have step:
    "fst (member_loop E sX sy is (q2\<lparr>committee_models := committee_models q1 @ [(sc, m)]\<rparr>) g1)
       = fst (member_loop E sX sy is (q1\<lparr>committee_models := committee_models q1 @ [(sc, m)]\<rparr>) g1)"
    "committee_models (fst (snd (member_loop E sX sy is
        (q2\<lparr>committee_models := committee_models q1 @ [(sc, m)]\<rparr>) g1)))
       = committee_models (fst (snd (member_loop E sX sy is
        (q1\<lparr>committee_models := committee_models q1 @ [(sc, m)]\<rparr>) g1)))"
    "snd (snd (member_loop E sX sy is (q2\<lparr>committee_models := committee_models q1 @ [(sc, m)]\<rparr>) g1))
       = snd (snd (member_loop E sX sy is (q1\<lparr>committee_models := committee_models q1 @ [(sc, m)]\<rparr>) g1))"
    for sc m g1
    using Cons.IH [of "q2\<lparr>committee_models := committee_models q1 @ [(sc, m)]\<rparr>"
        "q1\<lparr>committee_models := committee_models q1 @ [(sc, m)]\<rparr>" g1] Cons.prems
    by simp_all
  show ?case
    by (simp add: Cons.prems step split: sum.splits prod.splits)
qed

lemma full_model_indep:
  assumes "ml_algorithm q2 = ml_algorithm q1"
    and "ml_algorithm_params q2 = ml_algorithm_params q1"
  shows "fst (full_model E q2 X y g) = fst (full_model E q1 X y g) \<and>
         snd (snd (full_model E q2 X y g)) = snd (snd (full_model E q1 X y g)) \<and>
         (fst (full_model E q1 X y g) = None \<longrightarrow>
            cv_score (fst (snd (full_model E q2 X y g)))
              = cv_score (fst (snd (full_model E q1 X y g))))"
  by (simp add: full_model_def assms split: sum.splits prod.splits)

lemma full_model_keeps:
  "committee_models (fst (snd (full_model E q X y g))) = committee_models q"
  "n_members (fst (snd (full_model E q X y g))) = n_members q"
  "trained (fst (snd (full_model E q X y g))) = trained q"
  "test_full_model (fst (snd (full_model E q X y g))) = test_full_model q"
  by (simp_all add: full_model_def split: sum.splits prod.splits)

lemma member_loop_keeps:
  "n_members (fst (snd (member_loop E sX sy is q g))) = n_members q"
  "test_full_model (fst (snd (member_loop E sX sy is q g))) = test_full_model q"
  "ml_algorithm (fst (snd (member_loop E sX sy is q g))) = ml_algorithm q"
  "ml_algorithm_params (fst (snd (member_loop E sX sy is q g))) = ml_algorithm_params q"
  "trained (fst (snd (member_loop E sX sy is q g))) = trained q"
  "cv_score (fst (snd (member_loop E sX sy is q g))) = cv_score q"
proof -
  obtain r q' g' where m: "member_loop E sX sy is q g = (r, q', g')"
    by (cases "member_loop E sX sy is q g") auto
  have e: "q' = q\<lparr>committee_models := committee_models q'\<rparr>"
    by (rule member_loop_frame [OF m])
  have "n_members q' = n_members q" "test_full_model q' = test_full_model q"
    "ml_algorithm q' = ml_algorithm q" "ml_algorithm_params q' = ml_algorithm_params q"
    "trained q' = trained q" "cv_score q' = cv_score q"
    by (subst e, simp)+
  then show "n_members (fst (snd (member_loop E sX sy is q g))) = n_members q"
  "test_full_model (fst (snd (member_loop E sX sy is q g))) = test_full_model q"
  "ml_algorithm (fst (snd (member_loop E sX sy is q g))) = ml_algorithm q"
  "ml_algorithm_params (fst (snd (member_loop E sX sy is q g))) = ml_algorithm_params q"
  "trained (fst (snd (member_loop E sX sy is q g))) = trained q"
  "cv_score (fst (snd (member_loop E sX sy is q g))) = cv_score q"
    by (simp_all add: m)
qed

lemma fit_tail_indep:
  assumes "same_configuration q1 q2"
  shows "fst (fit_tail E q2 X y sX sy g1) = fst (fit_tail E q1 X y sX sy g1) \<and>
         snd (snd (fit_tail E q2 X y sX sy g1)) = snd (snd (fit_tail E q1 X y sX sy g1)) \<and>
         (fst (fit_tail E q1 X y sX sy g1) = None \<longrightarrow>
            committee_models (fst (snd (fit_tail E q2 X y sX sy g1)))
              = committee_models (fst (snd (fit_tail E q1 X y sX sy g1))) \<and>
            (test_full_model q1 \<longrightarrow>
               cv_score (fst (snd (fit_tail E q2 X y sX sy g1)))
                 = cv_score (fst (snd (fit_tail E q1 X y sX sy g1)))))"
proof -
  let ?p1 = "q1\<lparr>X_ := Some X, y_ := Some y, committee_models := []\<rparr>"
  let ?p2 = "q2\<lparr>X_ := Some X, y_ := Some y, committee_models := []\<rparr>"
  have c: "n_members q2 = n_members q1" "ml_algorithm q2 = ml_algorithm q1"
    "ml_algorithm_params q2 = ml_algorithm_params q1" "test_full_model q2 = test_full_model q1"
    using assms by (simp_all add: same_configuration_def)
  obtain r a1 g2 where m1: "member_loop E sX sy (py_range (n_members q1)) ?p1 g1 = (r, a1, g2)"
    by (cases "member_loop E sX sy (py_range (n_members q1)) ?p1 g1") auto
  obtain r' a2 g2' where m2: "member_loop E sX sy (py_range (n_members q1)) ?p2 g1 = (r', a2, g2')"
    by (cases "member_loop E sX sy (py_range (n_members q1)) ?p2 g1") auto
  have i: "r' = r" "committee_models a2 = committee_models a1" "g2' = g2"
    using member_loop_indep [of ?p2 ?p1 E sX sy "py_range (n_members q1)" g1] c m1 m2
    by simp_all
  have k1: "test_full_model a1 = test_full_model q1" "ml_algorithm a1 = ml_algorithm q1"
    "ml_algorithm_params a1 = ml_algorithm_params q1"
    using member_loop_keeps(2,3,4) [of E sX sy "py_range (n_members q1)" ?p1 g1] m1 by simp_all
  have k2: "test_full_model a2 = test_full_model q1" "ml_algorithm a2 = ml_algorithm q1"
    "ml_algorithm_params a2 = ml_algorithm_params q1"
    using member_loop_keeps(2,3,4) [of E sX sy "py_range (n_members q1)" ?p2 g1] m2 c by simp_all
  show ?thesis
  proof (cases r)
    case (Some e)
    then show ?thesis by (simp add: fit_tail_def c m1 m2 i)
  next
    case None
    show ?thesis
    proof (cases "test_full_model q1")
      case False
      then show ?thesis by (simp add: fit_tail_def c m1 m2 i None k1 k2)
    next
      case True
      have "fst (full_model E (a2\<lparr>trained := True\<rparr>) X y g2) = fst (full_model E (a1\<lparr>trained := True\<rparr>) X y g2) \<and>
         snd (snd (full_model E (a2\<lparr>trained := True\<rparr>) X y g2)) = snd (snd (full_model E (a1\<lparr>trained := True\<rparr>) X y g2)) \<and>
         (fst (full_model E (a1\<lparr>trained := True\<rparr>) X y g2) = None \<longrightarrow>
            cv_score (fst (snd (full_model E (a2\<lparr>trained := True\<rparr>) X y g2)))
              = cv_score (fst (snd (full_model E (a1\<lparr>trained := True\<rparr>) X y g2))))"
        by (rule full_model_indep) (simp_all add: k1 k2)
      then show ?thesis
        by (simp add: fit_tail_def c m1 m2 i None k1 k2 True full_model_keeps)
    qed
  qed
qed

lemma fit_as_tail:
  "fit E q X y g =
     (case split_loop E (training_fraction q) X y (py_range (n_members q)) [] [] g of
        (Inl e, g1) \<Rightarrow> (Some e, q\<lparr>X_ := Some X, y_ := Some y\<rparr>, g1)
      | (Inr (sX, sy), g1) \<Rightarrow> fit_tail E q X y sX sy g1)"
  by (simp add: fit_unfold fit_tail_def split: prod.splits sum.splits)

lemma fit_indep:
  assumes "same_configuration q1 q2"
  shows "fst (fit E q2 X y g) = fst (fit E q1 X y g) \<and>
         snd (snd (fit E q2 X y g)) = snd (snd (fit E q1 X y g)) \<and>
         (fst (fit E q1 X y g) = None \<longrightarrow>
            committee_models (fst (snd (fit E q2 X y g)))
              = committee_models (fst (snd (fit E q1 X y g))) \<and>
            (test_full_model q1 \<longrightarrow>
               cv_score (fst (snd (fit E q2 X y g))) = cv_score (fst (snd (fit E q1 X y g)))))"
proof -
  have c: "n_members q2 = n_members q1" "training_fraction q2 = training_fraction q1"
    using assms by (simp_all add: same_configuration_def)
  obtain r1 g1 where s: "split_loop E (training_fraction q1) X y (py_range (n_members q1)) [] [] g = (r1, g1)"
    by (cases "split_loop E (training_fraction q1) X y (py_range (n_members q1)) [] [] g") auto
  show ?thesis
  proof (cases r1)
    case (Inl e)
    then show ?thesis by (simp add: fit_as_tail c s)
  next
    case (Inr p)
    obtain sX sy where p: "p = (sX, sy)" by (cases p)
    show ?thesis
      using fit_tail_indep [OF assms, of E X y sX sy g1]
      by (simp add: fit_as_tail c s Inr p)
  qed
qed

lemma predict_cong:
  "committee_models a = committee_models b \<Longrightarrow> n_members a = n_members b \<Longrightarrow>
   predict E a X = predict E b X"
  by (simp add: predict_def)

text \<open>A run with three members on a hundred rows, from the random state 0.\<close>

lemma fit_example_100:
  "fst (fit E0 (QBC_init E0 3 (1/2) None None True) (map real [0..<100]) (map real [0..<100]) 0) = None \<and>
   committee_models (fst (snd (fit E0 (QBC_init E0 3 (1/2) None None True)
       (map real [0..<100]) (map real [0..<100]) 0)))
     = [(49/2, Some (49/2)), (51/2, Some (51/2)), (53/2, Some (53/2))]"
  by code_simp

lemma fit_predict_example_100:
  "fit_predict E0 (QBC_init E0 3 (1/2) None None True) (map real [0..<100]) (map real [0..<100])
     [10, 20] 0
   = Inr (Vector [51/2, 51/2],
          Vector [np_std [49/2, 51/2, 53/2], np_std [49/2, 51/2, 53/2]])"
proof -
  let ?Q = "QBC_init E0 3 (1/2) None None True :: (real, real, real, real option, unit) QBC"
  let ?X = "map real [0..<100]"
  obtain r q' g' where f: "fit E0 ?Q ?X ?X 0 = (r, q', g')"
    by (cases "fit E0 ?Q ?X ?X 0") auto
  have r: "r = None"
    and c: "committee_models q' = [(49/2, Some (49/2)), (51/2, Some (51/2)), (53/2, Some (53/2))]"
    using fit_example_100 f by simp_all
  have "n_members q' = n_members ?Q"
    using f r by (intro fit_ok_members(2)) simp
  then have n: "n_members q' = 3"
    by (simp add: QBC_init_def)
  have u: "py_range 3 = [0, 1, 2]"
    by (simp add: py_range_def upt_rec)
  have "predict E0 q' [10, 20]
          = Inr (Vector [51/2, 51/2],
                 Vector [np_std [49/2, 51/2, 53/2], np_std [49/2, 51/2, 53/2]])"
    by (simp add: predict_def n c u py_index_def centre_transform_def mean_predict_def
        axis0_def np_mean_def upt_2)
  then show ?thesis
    by (simp add: fit_predict_def f r)
qed

text \<open>
  C6. Fit then predict is a function of the constructor arguments, the data and the
  state of the random generator, and of nothing else: two objects built with the same
  arguments (for instance \<open>n_members = 3\<close>, \<open>training_fraction = 0.5\<close>), whatever members,
  \<open>trained\<close> flag and score either still carries from earlier calls, give the same
  outcome, the same \<open>(mean, std)\<close> arrays or the same exception, when run on the same
  data (for instance 100 rows) from the same random state. Every random choice of the
  run, the shuffles, the regressor's and the cross-validation's, is drawn from that
  state.
\<close>

theorem fit_predict_deterministic:
  assumes "same_configuration q1 q2"
  shows "fit_predict E q1 X y X_new g = fit_predict E q2 X y X_new g"
proof -
  obtain r a1 g1 where f1: "fit E q1 X y g = (r, a1, g1)"
    by (cases "fit E q1 X y g") auto
  obtain r' a2 g2 where f2: "fit E q2 X y g = (r', a2, g2)"
    by (cases "fit E q2 X y g") auto
  have i: "r' = r" "r = None \<longrightarrow> committee_models a2 = committee_models a1"
    using fit_indep [OF assms, of E X y g] f1 f2 by simp_all
  show ?thesis
  proof (cases r)
    case (Some e)
    then show ?thesis by (simp add: fit_predict_def f1 f2 i)
  next
    case None
    have o: "fit E q1 X y g = (None, a1, g1)" "fit E q2 X y g = (None, a2, g2)"
      using f1 f2 i None by simp_all
    have "n_members a1 = n_members q1" "n_members a2 = n_members q2"
      by (rule fit_ok_members(2) [OF o(1)], rule fit_ok_members(2) [OF o(2)])
    moreover have "n_members q1 = n_members q2"
      using assms by (simp add: same_configuration_def)
    ultimately have "predict E a1 X_new = predict E a2 X_new"
      using i None by (intro predict_cong) simp_all
    then show ?thesis by (simp add: fit_predict_def f1 f2 i None)
  qed
qed

theorem fit_predict_deterministic_witness:
  "same_configuration (QBC_init E0 3 (1/2) None None True)
     ((QBC_init E0 3 (1/2) None None True)
        \<lparr>committee_models := [(7, None)], trained := True, cv_score := Some 3\<rparr>) \<and>
   fit_predict E0 (QBC_init E0 3 (1/2) None None True)
     (map real [0..<100]) (map real [0..<100]) [10, 20] 0 =
   Inr (Vector [51/2, 51/2], Vector [np_std [49/2, 51/2, 53/2], np_std [49/2, 51/2, 53/2]]) \<and>
   fit_predict E0 ((QBC_init E0 3 (1/2) None None True)
        \<lparr>committee_models := [(7, None)], trained := True, cv_score := Some 3\<rparr>)
     (map real [0..<100]) (map real [0..<100]) [10, 20] 0 =
   Inr (Vector [51/2, 51/2], Vector [np_std [49/2, 51/2, 53/2], np_std [49/2, 51/2, 53/2]])"
proof -
  have s: "same_configuration (QBC_init E0 3 (1/2) None None True :: (real, real, real, real option, unit) QBC)
     ((QBC_init E0 3 (1/2) None None True)
        \<lparr>committee_models := [(7, None)], trained := True, cv_score := Some 3\<rparr>)"
    by (simp add: same_configuration_def)
  note T = fit_predict_deterministic [OF s, of E0 "map real [0..<100]" "map real [0..<100]"
      "[10, 20]" 0]
  show ?thesis
    by (intro conjI s fit_predict_example_100 trans [OF T [symmetric] fit_predict_example_100])
qed

text \<open>
  C7. After a fit call that returns normally the object is trained and holds exactly
  \<open>n_members\<close> pairs (none when \<open>n_members\<close> is negative), however many members it held
  before: running the same call on the object with any other member list \<open>c\<close>, flag
  \<open>t\<close> and score \<open>s\<close> returns normally as well and leaves the same members, and, when
  the full model is evaluated, the same score.
\<close>

theorem fit_replaces_members:
  assumes "fit E q X y g = (None, q', g')"
  shows "trained q' \<and> n_members q' = n_members q \<and>
         length (committee_models q') = nat (n_members q) \<and>
         fst (fit E (q\<lparr>committee_models := c, trained := t, cv_score := s\<rparr>) X y g) = None \<and>
         committee_models (fst (snd (fit E (q\<lparr>committee_models := c, trained := t, cv_score := s\<rparr>) X y g)))
           = committee_models q' \<and>
         (test_full_model q \<longrightarrow>
            cv_score (fst (snd (fit E (q\<lparr>committee_models := c, trained := t, cv_score := s\<rparr>) X y g)))
              = cv_score q')"
proof -
  have "same_configuration q (q\<lparr>committee_models := c, trained := t, cv_score := s\<rparr>)"
    by (simp add: same_configuration_def)
  from fit_indep [OF this, of E X y g] show ?thesis
    using fit_ok_members(1,2,3) [OF assms] by (simp add: assms)
qed

theorem fit_replaces_members_witness:
  "fit E0 (QBC_init E0 1 (3/4) None None False) [1, 2, 3, 4, 5] [1, 2, 3, 4, 5] 0 =
     (None, \<lparr> n_members = 1, training_fraction = 3/4, ml_algorithm = (\<lambda>params. None),
       ml_algorithm_params = [], committee_models = [(2, Some 2)], trained = True,
       test_full_model = False, cv_score = None, X_ = Some [1, 2, 3, 4, 5],
       y_ = Some [1, 2, 3, 4, 5] \<rparr>, 1) \<and>
   fst (fit E0 ((QBC_init E0 1 (3/4) None None False)
          \<lparr>committee_models := [(7, None), (8, None)], trained := True, cv_score := Some 3\<rparr>)
          [1, 2, 3, 4, 5] [1, 2, 3, 4, 5] 0) = None \<and>
   committee_models (fst (snd (fit E0 ((QBC_init E0 1 (3/4) None None False)
          \<lparr>committee_models := [(7, None), (8, None)], trained := True, cv_score := Some 3\<rparr>)
          [1, 2, 3, 4, 5] [1, 2, 3, 4, 5] 0))) = [(2, Some 2)]"
proof -
  note T = fit_replaces_members [OF fit_example, where c = "[(7, None), (8, None)]" and t = True
      and s = "Some 3"]
  note a = T [THEN conjunct2, THEN conjunct2, THEN conjunct2, THEN conjunct1]
  note b = T [THEN conjunct2, THEN conjunct2, THEN conjunct2, THEN conjunct2, THEN conjunct1]
  have c: "committee_models (fst (snd (fit E0 ((QBC_init E0 1 (3/4) None None False)
          \<lparr>committee_models := [(7, None), (8, None)], trained := True, cv_score := Some 3\<rparr>)
          [1, 2, 3, 4, 5] [1, 2, 3, 4, 5] 0))) = [(2, Some 2)]"
    using b by (simp only: QBC.select_convs)
  show ?thesis
    by (intro conjI fit_example a c)
qed

lemma fit_keeps_cv_score:
  assumes "\<not> test_full_model q"
  shows "cv_score (fst (snd (fit E q X y g))) = cv_score q"
    and "test_full_model (fst (snd (fit E q X y g))) = test_full_model q"
proof -
  obtain r1 g1 where s: "split_loop E (training_fraction q) X y (py_range (n_members q)) [] [] g = (r1, g1)"
    by (cases "split_loop E (training_fraction q) X y (py_range (n_members q)) [] [] g") auto
  have "cv_score (fst (snd (fit E q X y g))) = cv_score q \<and>
        test_full_model (fst (snd (fit E q X y g))) = test_full_model q"
  proof (cases r1)
    case (Inl e)
    then show ?thesis by (simp add: fit_as_tail s)
  next
    case (Inr p)
    obtain sX sy where p: "p = (sX, sy)" by (cases p)
    let ?p = "q\<lparr>X_ := Some X, y_ := Some y, committee_models := []\<rparr>"
    obtain r a g2 where m: "member_loop E sX sy (py_range (n_members q)) ?p g1 = (r, a, g2)"
      by (cases "member_loop E sX sy (py_range (n_members q)) ?p g1") auto
    have k: "test_full_model a = test_full_model q" "cv_score a = cv_score q"
      using member_loop_keeps(2,6) [of E sX sy "py_range (n_members q)" ?p g1] m by simp_all
    show ?thesis
      using assms by (cases r) (simp_all add: fit_as_tail s Inr p fit_tail_def m k)
  qed
  then show "cv_score (fst (snd (fit E q X y g))) = cv_score q"
    and "test_full_model (fst (snd (fit E q X y g))) = test_full_model q"
    by simp_all
qed

lemma np_mean_nonpos:
  assumes "\<forall>s \<in> set scores. s \<le> 0"
  shows "0 \<le> - np_mean scores"
proof -
  have "sum_list scores \<le> 0"
    using assms by (induction scores) (auto intro: add_nonpos_nonpos)
  then show ?thesis
    by (simp add: np_mean_def divide_nonpos_nonneg)
qed

text \<open>
  C8. When \<open>test_full_model\<close> is set and fit returns normally, one scaler has been
  fitted on all of \<open>X\<close>, one fresh model on the scaled data and \<open>y\<close>, and \<open>cv_score\<close> is
  minus the mean of the scores that \<open>cross_val_score\<close> returns for that model with
  \<open>KFold(5, shuffle=True)\<close> and the scoring \<open>neg_mean_absolute_error\<close>; it is not negative
  when no score is positive, as negated absolute errors are. When \<open>test_full_model\<close> is
  not set, fit leaves \<open>cv_score\<close> as it was, and the option stays unset; the constructor
  sets it to \<open>nan\<close>.
\<close>

theorem fit_held_out_score:
  assumes "fit E q X y g = (r, q', g')"
  shows "(test_full_model q \<and> r = None \<longrightarrow>
            (\<exists>sc Z m g1 g2 scores.
               scaler_fit_transform E X = Inr (sc, Z) \<and>
               fst (model_fit E (ml_algorithm q (ml_algorithm_params q)) Z y g1) = Inr m \<and>
               fst (cross_val_score E m Z y \<lparr>n_splits = 5, shuffle = True\<rparr>
                      ''neg_mean_absolute_error'' g2) = Inr scores \<and>
               cv_score q' = (if scores = [] then None else Some (- np_mean scores)) \<and>
               ((\<forall>s \<in> set scores. s \<le> 0) \<longrightarrow> 0 \<le> - np_mean scores))) \<and>
         (\<not> test_full_model q \<longrightarrow> cv_score q' = cv_score q \<and> \<not> test_full_model q') \<and>
         cv_score (QBC_init E n f alg params tfm) = None"
proof (intro conjI impI)
  show "cv_score (QBC_init E n f alg params tfm) = None"
    by (simp add: QBC_init_def)
next
  assume "\<not> test_full_model q"
  from fit_keeps_cv_score [OF this, of E X y g]
  show "cv_score q' = cv_score q" and "\<not> test_full_model q'"
    using assms \<open>\<not> test_full_model q\<close> by simp_all
next
  assume a: "test_full_model q \<and> r = None"
  with assms have f: "fit E q X y g = (None, q', g')" by simp
  from f obtain sX sy g1 q2 g2 where
    e: "q2 = q\<lparr>X_ := Some X, y_ := Some y, committee_models := committee_models q2\<rparr>"
    and t: "if test_full_model q then full_model E (q2\<lparr>trained := True\<rparr>) X y g2 = (None, q', g')
     else q' = q2\<lparr>trained := True\<rparr> \<and> g' = g2"
    by (rule fit_NoneE)
  have k: "ml_algorithm q2 = ml_algorithm q" "ml_algorithm_params q2 = ml_algorithm_params q"
    by (subst e, simp)+
  from t a have "full_model E (q2\<lparr>trained := True\<rparr>) X y g2 = (None, q', g')" by simp
  from full_model_ok [OF this] obtain sc Z m h1 h2 scores where
    o: "scaler_fit_transform E X = Inr (sc, Z)"
       "fst (model_fit E (ml_algorithm q (ml_algorithm_params q)) Z y h1) = Inr m"
       "fst (cross_val_score E m Z y \<lparr>n_splits = 5, shuffle = True\<rparr>
                      ''neg_mean_absolute_error'' h2) = Inr scores"
       "cv_score q' = (if scores = [] then None else Some (- np_mean scores))"
    by (auto simp: k)
  have "(\<forall>s \<in> set scores. s \<le> 0) \<longrightarrow> 0 \<le> - np_mean scores"
    using np_mean_nonpos by blast
  with o show "\<exists>sc Z m g1 g2 scores.
               scaler_fit_transform E X = Inr (sc, Z) \<and>
               fst (model_fit E (ml_algorithm q (ml_algorithm_params q)) Z y g1) = Inr m \<and>
               fst (cross_val_score E m Z y \<lparr>n_splits = 5, shuffle = True\<rparr>
                      ''neg_mean_absolute_error'' g2) = Inr scores \<and>
               cv_score q' = (if scores = [] then None else Some (- np_mean scores)) \<and>
               ((\<forall>s \<in> set scores. s \<le> 0) \<longrightarrow> 0 \<le> - np_mean scores)"
    by blast
qed

theorem fit_held_out_score_witness:
  "test_full_model (QBC_init E0 1 (3/4) None None True :: (real, real, real, real option, unit) QBC) \<and>
   fit E0 (QBC_init E0 1 (3/4) None None True) [1, 2, 3, 4, 5] [1, 2, 3, 4, 5] 0 =
   (None, \<lparr> n_members = 1, training_fraction = 3/4, ml_algorithm = (\<lambda>params. None),
       ml_algorithm_params = [], committee_models = [(2, Some 2)], trained = True,
       test_full_model = True, cv_score = Some 1, X_ = Some [1, 2, 3, 4, 5],
       y_ = Some [1, 2, 3, 4, 5] \<rparr>, 2) \<and>
   (\<exists>sc Z m g1 g2 scores.
      scaler_fit_transform E0 [1, 2, 3, 4, 5] = Inr (sc, Z) \<and>
      fst (model_fit E0 (ml_algorithm (QBC_init E0 1 (3/4) None None True :: (real, real, real, real option, unit) QBC)
             (ml_algorithm_params (QBC_init E0 1 (3/4) None None True :: (real, real, real, real option, unit) QBC)))
             Z [1, 2, 3, 4, 5] g1) = Inr m \<and>
      fst (cross_val_score E0 m Z [1, 2, 3, 4, 5] \<lparr>n_splits = 5, shuffle = True\<rparr>
             ''neg_mean_absolute_error'' g2) = Inr scores \<and>
      Some 1 = (if scores = [] then None else Some (- np_mean scores)) \<and>
      ((\<forall>s \<in> set scores. s \<le> 0) \<longrightarrow> 0 \<le> - np_mean scores))"
proof -
  have t: "test_full_model (QBC_init E0 1 (3/4) None None True :: (real, real, real, real option, unit) QBC)"
    by (simp add: QBC_init_def)
  then have u: "test_full_model (QBC_init E0 1 (3/4) None None True :: (real, real, real, real option, unit) QBC)
      \<and> (None :: error option) = None"
    by simp
  note T = fit_held_out_score [OF fit_example_cv, where n = 0 and f = 0 and alg = None
      and params = None and tfm = False, THEN conjunct1, THEN mp, OF u]
  have e: "\<exists>sc Z m g1 g2 scores.
      scaler_fit_transform E0 [1, 2, 3, 4, 5] = Inr (sc, Z) \<and>
      fst (model_fit E0 (ml_algorithm (QBC_init E0 1 (3/4) None None True :: (real, real, real, real option, unit) QBC)
             (ml_algorithm_params (QBC_init E0 1 (3/4) None None True :: (real, real, real, real option, unit) QBC)))
             Z [1, 2, 3, 4, 5] g1) = Inr m \<and>
      fst (cross_val_score E0 m Z [1, 2, 3, 4, 5] \<lparr>n_splits = 5, shuffle = True\<rparr>
             ''neg_mean_absolute_error'' g2) = Inr scores \<and>
      Some 1 = (if scores = [] then None else Some (- np_mean scores)) \<and>
      ((\<forall>s \<in> set scores. s \<le> 0) \<longrightarrow> 0 \<le> - np_mean scores)"
    using T by (simp only: QBC.select_convs)
  show ?thesis
    by (intro conjI t fit_example_cv e)
qed

subsection \<open>Where a failure of fit comes from\<close>

lemma iloc_in_range:
  "set J \<subseteq> {..<length X} \<Longrightarrow> iloc X J = Inr (map (\<lambda>i. X ! i) J)"
  by (auto simp: iloc_def list_all_iff)









subsection \<open>Predicting with a fitted ensemble\<close>

lemma predict_loop_step:
  assumes "i < length cm"
  shows "predict_loop E cm X (i # is) preds =
           (case member_predict E X (cm ! i) of
              Inl e \<Rightarrow> Inl e
            | Inr p \<Rightarrow> predict_loop E cm X is (preds @ [p]))"
  using assms
  by (cases "cm ! i") (simp add: py_index_def member_predict_def split: sum.splits)

lemma predict_loop_ok:
  assumes "\<forall>i \<in> set is. i < length cm \<and> member_predict E X (cm ! i) = Inr (P (cm ! i))"
  shows "predict_loop E cm X is preds = Inr (preds @ map (\<lambda>i. P (cm ! i)) is)"
  using assms
proof (induction "is" arbitrary: preds)
  case Nil
  then show ?case by simp
next
  case (Cons i "is")
  then have "i < length cm" "member_predict E X (cm ! i) = Inr (P (cm ! i))"
    by simp_all
  then have "predict_loop E cm X (i # is) preds = predict_loop E cm X is (preds @ [P (cm ! i)])"
    by (simp add: predict_loop_step del: predict_loop.simps)
  also have "\<dots> = Inr ((preds @ [P (cm ! i)]) @ map (\<lambda>i. P (cm ! i)) is)"
    using Cons.prems by (intro Cons.IH) simp
  finally show ?case by simp
qed

lemma predict_all_members:
  assumes "length (committee_models q) = nat (n_members q)"
    and "\<forall>p \<in> set (committee_models q). member_predict E X p = Inr (P p)"
  shows "predict_loop E (committee_models q) X (py_range (n_members q)) []
           = Inr (map P (committee_models q))"
proof -
  have "\<forall>i \<in> set (py_range (n_members q)).
          i < length (committee_models q) \<and>
          member_predict E X (committee_models q ! i) = Inr (P (committee_models q ! i))"
    using assms by (simp add: py_range_def)
  then have "predict_loop E (committee_models q) X (py_range (n_members q)) []
           = Inr ([] @ map (\<lambda>i. P (committee_models q ! i)) (py_range (n_members q)))"
    by (rule predict_loop_ok)
  also have "map (\<lambda>i. P (committee_models q ! i)) (py_range (n_members q)) = map P (committee_models q)"
  proof -
    have "map (\<lambda>i. P (committee_models q ! i)) [0..<length (committee_models q)]
            = map P (map (\<lambda>i. committee_models q ! i) [0..<length (committee_models q)])"
      by (simp only: map_map o_def)
    also have "\<dots> = map P (committee_models q)"
      by (simp only: map_nth)
    finally show ?thesis
      by (simp only: py_range_def assms(1) [symmetric])
  qed
  finally show ?thesis by simp
qed

lemma axis0_vectors:
  assumes "preds \<noteq> []" and "\<forall>v \<in> set preds. length v = k"
  shows "axis0 f preds = Inr (Vector (map (\<lambda>j. f (map (\<lambda>v. v ! j) preds)) [0..<k]))"
  using assms by (cases preds) (auto simp: axis0_def list_all_iff)

lemma np_mean_map:
  "np_mean (map h preds) = (\<Sum>v\<leftarrow>preds. h v) / real (length preds)"
  by (simp add: np_mean_def)

lemma np_std_map:
  "np_std (map h preds) =
     sqrt ((\<Sum>v\<leftarrow>preds. (h v - (\<Sum>w\<leftarrow>preds. h w) / real (length preds))\<^sup>2) / real (length preds))"
  by (simp add: np_std_def np_mean_def o_def)

text \<open>
  C4. Take an ensemble that a fit call has returned, with at least one member, and an
  input \<open>X\<close> on which every member's scaler and model succeed and predict one value per
  row. Then predict applies to \<open>X\<close> each member's own scaler and then its model, in
  order, and returns the pair of vectors, one entry per row of \<open>X\<close>, whose entry \<open>j\<close> is
  the arithmetic mean, and the square root of the mean squared deviation from that mean
  (the population standard deviation, dividing by \<open>n_members\<close>), of the members'
  predictions for row \<open>j\<close>.
\<close>

theorem predict_mean_std:
  assumes "fit E q X_train y_train g = (None, q', g')"
    and "0 < n_members q"
    and "\<forall>p \<in> set (committee_models q'). \<exists>v. member_predict E X p = Inr v \<and> length v = length X"
  shows "\<exists>preds.
           length preds = nat (n_members q) \<and>
           list_all2 (\<lambda>p v. member_predict E X p = Inr v) (committee_models q') preds \<and>
           predict E q' X =
             Inr (Vector (map (\<lambda>j. (\<Sum>v\<leftarrow>preds. v ! j) / real (nat (n_members q))) [0..<length X]),
                  Vector (map (\<lambda>j. sqrt ((\<Sum>v\<leftarrow>preds.
                              (v ! j - (\<Sum>w\<leftarrow>preds. w ! j) / real (nat (n_members q)))\<^sup>2)
                            / real (nat (n_members q)))) [0..<length X]))"
proof -
  from bchoice [OF assms(3)] obtain P where
    P: "\<forall>p \<in> set (committee_models q'). member_predict E X p = Inr (P p) \<and> length (P p) = length X"
    by blast
  let ?preds = "map P (committee_models q')"
  have len: "length (committee_models q') = nat (n_members q)" and n: "n_members q' = n_members q"
    by (rule fit_ok_members(3) [OF assms(1)], rule fit_ok_members(2) [OF assms(1)])
  have l: "length ?preds = nat (n_members q)"
    by (simp add: len)
  have ne: "?preds \<noteq> []"
    using len assms(2) by auto
  have k: "\<forall>v \<in> set ?preds. length v = length X"
    using P by simp
  have loop: "predict_loop E (committee_models q') X (py_range (n_members q')) [] = Inr ?preds"
    using P by (intro predict_all_members) (simp_all add: len n)
  have "predict E q' X =
          Inr (Vector (map (\<lambda>j. np_mean (map (\<lambda>v. v ! j) ?preds)) [0..<length X]),
               Vector (map (\<lambda>j. np_std (map (\<lambda>v. v ! j) ?preds)) [0..<length X]))"
    by (simp only: predict_def loop sum.case axis0_vectors [OF ne k])
  then have "predict E q' X =
             Inr (Vector (map (\<lambda>j. (\<Sum>v\<leftarrow>?preds. v ! j) / real (nat (n_members q))) [0..<length X]),
                  Vector (map (\<lambda>j. sqrt ((\<Sum>v\<leftarrow>?preds.
                              (v ! j - (\<Sum>w\<leftarrow>?preds. w ! j) / real (nat (n_members q)))\<^sup>2)
                            / real (nat (n_members q)))) [0..<length X]))"
    by (simp only: np_mean_map np_std_map l)
  moreover have "list_all2 (\<lambda>p v. member_predict E X p = Inr v) (committee_models q') ?preds"
    using P by (simp add: list_all2_conv_all_nth)
  ultimately show ?thesis using l by blast
qed

theorem predict_mean_std_witness:
  "fit E0 (QBC_init E0 2 (1/2) None None False) [1, 2, 3, 4] [1, 2, 3, 4] 0 =
   (None, \<lparr> n_members = 2, training_fraction = 1/2, ml_algorithm = (\<lambda>params. None),
       ml_algorithm_params = [], committee_models = [(3/2, Some (3/2)), (5/2, Some (5/2))],
       trained = True, test_full_model = False, cv_score = None, X_ = Some [1, 2, 3, 4],
       y_ = Some [1, 2, 3, 4] \<rparr>, 2) \<and>
   member_predict E0 [10, 20] (3/2, Some (3/2)) = Inr [3/2, 3/2] \<and>
   member_predict E0 [10, 20] (5/2, Some (5/2)) = Inr [5/2, 5/2] \<and>
   predict E0 \<lparr> n_members = 2, training_fraction = 1/2, ml_algorithm = (\<lambda>params. None),
       ml_algorithm_params = [], committee_models = [(3/2, Some (3/2)), (5/2, Some (5/2))],
       trained = True, test_full_model = False, cv_score = None, X_ = Some [1, 2, 3, 4],
       y_ = Some [1, 2, 3, 4] \<rparr> [10, 20] = Inr (Vector [2, 2], Vector [1/2, 1/2])"
proof -
  let ?Q = "QBC_init E0 2 (1/2) None None False :: (real, real, real, real option, unit) QBC"
  let ?Q' = "\<lparr> n_members = 2, training_fraction = 1/2, ml_algorithm = (\<lambda>params. None),
       ml_algorithm_params = [], committee_models = [(3/2, Some (3/2)), (5/2, Some (5/2))],
       trained = True, test_full_model = False, cv_score = None, X_ = Some [1, 2, 3, 4],
       y_ = Some [1, 2, 3, 4] \<rparr> :: (real, real, real, real option, unit) QBC"
  have n: "0 < n_members ?Q" "nat (n_members ?Q) = 2"
    by (simp_all add: QBC_init_def)
  have m: "member_predict E0 [10, 20] (3/2, Some (3/2)) = Inr [3/2, 3/2]"
    "member_predict E0 [10, 20] (5/2, Some (5/2)) = Inr [5/2, 5/2]"
    by (simp_all add: member_predict_E0)
  have h: "\<forall>p \<in> set (committee_models ?Q').
             \<exists>v. member_predict E0 [10, 20] p = Inr v \<and> length v = length [10, 20 :: real]"
    by (simp add: m)
  from predict_mean_std [OF fit_example_two n(1) h] obtain preds where
    L: "list_all2 (\<lambda>p v. member_predict E0 [10, 20] p = Inr v) (committee_models ?Q') preds"
    and P: "predict E0 ?Q' [10, 20] =
             Inr (Vector (map (\<lambda>j. (\<Sum>v\<leftarrow>preds. v ! j) / real (nat (n_members ?Q))) [0..<length [10, 20 :: real]]),
                  Vector (map (\<lambda>j. sqrt ((\<Sum>v\<leftarrow>preds.
                              (v ! j - (\<Sum>w\<leftarrow>preds. w ! j) / real (nat (n_members ?Q)))\<^sup>2)
                            / real (nat (n_members ?Q)))) [0..<length [10, 20 :: real]]))"
    by blast
  from L have preds: "preds = [[3/2, 3/2], [5/2, 5/2]]"
    by (auto simp: list_all2_Cons1 m)
  have s: "sqrt (1 / 4) = 1 / 2"
    by (simp add: real_sqrt_divide)
  have "predict E0 ?Q' [10, 20] = Inr (Vector [2, 2], Vector [1/2, 1/2])"
    unfolding P preds n by (simp add: upt_2 power2_eq_square s)
  then show ?thesis
    by (intro conjI fit_example_two m)
qed

lemma np_std_single: "np_std [x] = 0"
  by (simp add: np_std_def np_mean_def)

lemma np_mean_single: "np_mean [x] = x"
  by (simp add: np_mean_def)

text \<open>
  C5. An ensemble of one member that a fit call has returned predicts, on every input,
  what its single member predicts, with a standard deviation of 0 in every entry; when
  the member's scaler or model raises, predict raises the same error.
\<close>

theorem predict_single_member:
  assumes "n_members q = 1" and "fit E q X_train y_train g = (None, q', g')"
  shows "\<exists>p. committee_models q' = [p] \<and>
           (\<forall>v. member_predict E X p = Inr v \<longrightarrow>
                  predict E q' X = Inr (Vector v, Vector (replicate (length v) 0))) \<and>
           (\<forall>e. member_predict E X p = Inl e \<longrightarrow> predict E q' X = Inl e)"
proof -
  have "length (committee_models q') = 1" and n: "n_members q' = 1"
    using fit_ok_members(3) [OF assms(2)] fit_ok_members(2) [OF assms(2)] assms(1) by simp_all
  then obtain p where p: "committee_models q' = [p]"
    by (cases "committee_models q'") auto
  have r: "py_range 1 = [0]"
    by (simp add: py_range_def)
  have loop: "predict_loop E [p] X [0] [] =
                (case member_predict E X p of Inl e \<Rightarrow> Inl e | Inr v \<Rightarrow> Inr [v])"
    by (simp add: predict_loop_step del: predict_loop.simps(2) split: sum.splits)
  have "predict E q' X = Inr (Vector v, Vector (replicate (length v) 0))"
    if "member_predict E X p = Inr v" for v
  proof -
    have pl: "predict_loop E (committee_models q') X (py_range (n_members q')) [] = Inr [v]"
      by (simp only: p n r loop that sum.case)
    have "map (\<lambda>j. v ! j) [0..<length v] = v"
      by (rule map_nth)
    then have "axis0 np_mean [v] = Inr (Vector v)"
      and "axis0 np_std [v] = Inr (Vector (replicate (length v) 0))"
      by (simp_all add: axis0_def np_std_single np_mean_single map_replicate_const)
    then show ?thesis
      by (simp only: predict_def pl sum.case)
  qed
  moreover have "predict E q' X = Inl e" if "member_predict E X p = Inl e" for e
  proof -
    have "predict_loop E (committee_models q') X (py_range (n_members q')) [] = Inl e"
      by (simp only: p n r loop that sum.case)
    then show ?thesis
      by (simp only: predict_def sum.case)
  qed
  ultimately show ?thesis using p by blast
qed

theorem predict_single_member_witness:
  "n_members (QBC_init E0 1 (3/4) None None False :: (real, real, real, real option, unit) QBC) = 1 \<and>
   fit E0 (QBC_init E0 1 (3/4) None None False) [1, 2, 3, 4, 5] [1, 2, 3, 4, 5] 0 =
     (None, \<lparr> n_members = 1, training_fraction = 3/4, ml_algorithm = (\<lambda>params. None),
       ml_algorithm_params = [], committee_models = [(2, Some 2)], trained = True,
       test_full_model = False, cv_score = None, X_ = Some [1, 2, 3, 4, 5],
       y_ = Some [1, 2, 3, 4, 5] \<rparr>, 1) \<and>
   predict E0 \<lparr> n_members = 1, training_fraction = 3/4, ml_algorithm = (\<lambda>params. None),
       ml_algorithm_params = [], committee_models = [(2, Some 2)], trained = True,
       test_full_model = False, cv_score = None, X_ = Some [1, 2, 3, 4, 5],
       y_ = Some [1, 2, 3, 4, 5] \<rparr> [10, 20] = Inr (Vector [2, 2], Vector [0, 0])"
proof -
  let ?Q = "QBC_init E0 1 (3/4) None None False :: (real, real, real, real option, unit) QBC"
  let ?Q' = "\<lparr> n_members = 1, training_fraction = 3/4, ml_algorithm = (\<lambda>params. None),
       ml_algorithm_params = [], committee_models = [(2, Some 2)], trained = True,
       test_full_model = False, cv_score = None, X_ = Some [1, 2, 3, 4, 5],
       y_ = Some [1, 2, 3, 4, 5] \<rparr> :: (real, real, real, real option, unit) QBC"
  have n: "n_members ?Q = 1"
    by (simp add: QBC_init_def)
  from predict_single_member [OF n fit_example, of "[10, 20]"] obtain p where
    p: "committee_models ?Q' = [p]"
    and v: "\<forall>v. member_predict E0 [10, 20] p = Inr v \<longrightarrow>
                predict E0 ?Q' [10, 20] = Inr (Vector v, Vector (replicate (length v) 0))"
    by blast
  from p have "p = (2, Some 2)" by simp
  then have "member_predict E0 [10, 20] p = Inr [2, 2]"
    by (simp add: member_predict_E0)
  with v have "predict E0 ?Q' [10, 20] = Inr (Vector [2, 2], Vector (replicate (length [2, 2 :: real]) 0))"
    by blast
  then have "predict E0 ?Q' [10, 20] = Inr (Vector [2, 2], Vector [0, 0])"
    by (simp add: numeral_2_eq_2)
  then show ?thesis
    by (intro conjI n fit_example)
qed

section \<open>Properties of the baseline agent\<close>

lemma sample_ok:
  assumes "shuffle_permutes E" and "0 \<le> n" and "n \<le> int (length frame)"
  shows "\<exists>idx g'. sample E frame n g = (Inr (map (\<lambda>i. frame ! i) idx), g') \<and>
           length idx = nat n \<and> distinct idx \<and> set idx \<subseteq> {..<length frame}"
proof -
  obtain a g' where s: "np_random_shuffle E g [0..<length frame] = (a, g')"
    by (cases "np_random_shuffle E g [0..<length frame]")
  note F = shuffle_facts [OF assms(1) s]
  let ?idx = "take (nat n) a"
  have d: "distinct ?idx" using F(1) by simp
  have sub: "set ?idx \<subseteq> {..<length frame}"
    using F(2) set_take_subset [of "nat n" a] by blast
  have len: "length ?idx = nat n"
    using F(3) assms(2,3) by simp
  have "sample E frame n g = (iloc frame ?idx, g')"
    using assms(2,3) by (simp add: sample_def s)
  then have "sample E frame n g = (Inr (map (\<lambda>i. frame ! i) ?idx), g')"
    by (simp add: iloc_in_range [OF sub])
  then show ?thesis using d sub len by blast
qed

lemma distinct_keys_at:
  assumes "distinct (map fst frame)" and "distinct idx" and "set idx \<subseteq> {..<length frame}"
  shows "distinct (map fst (map (\<lambda>i. frame ! i) idx))"
proof -
  have "inj_on (\<lambda>i. fst (frame ! i)) (set idx)"
  proof (rule inj_onI)
    fix i j
    assume i: "i \<in> set idx" and j: "j \<in> set idx" and e: "fst (frame ! i) = fst (frame ! j)"
    have b: "i < length frame" "j < length frame"
      using i j assms(3) by auto
    then have "i < length (map fst frame)" "j < length (map fst frame)"
      by simp_all
    moreover have "map fst frame ! i = map fst frame ! j"
      using e b by simp
    ultimately show "i = j"
      using nth_eq_iff_index_eq [OF assms(1)] by blast
  qed
  then show ?thesis
    using assms(2) by (simp add: distinct_map o_def)
qed

text \<open>
  C10. Let the shuffle rearrange, and let the candidate frame be non-empty with
  pairwise distinct index labels. When \<open>0 \<le> n_query \<le> len(candidate_data)\<close>,
  \<open>get_hypotheses\<close> returns exactly \<open>n_query\<close> labels, pairwise distinct and all of them
  labels of the candidate frame; when \<open>n_query\<close> exceeds the number of candidates it
  raises \<open>ValueError\<close> and returns no label. The seed data play no part.
\<close>

theorem get_hypotheses_contract:
  assumes "shuffle_permutes E" and "pool \<noteq> []" and "distinct (index_tolist pool)"
  shows "(0 \<le> n_query agent \<and> n_query agent \<le> int (length pool) \<longrightarrow>
            (\<exists>keys g'. get_hypotheses E agent pool seed g = (Inr keys, g') \<and>
               length keys = nat (n_query agent) \<and> distinct keys \<and>
               set keys \<subseteq> set (index_tolist pool))) \<and>
         (int (length pool) < n_query agent \<longrightarrow>
            get_hypotheses E agent pool seed g = (Inl ValueError, g))"
proof (intro conjI impI)
  assume "int (length pool) < n_query agent"
  then show "get_hypotheses E agent pool seed g = (Inl ValueError, g)"
    by (simp add: get_hypotheses_def sample_def)
next
  assume a: "0 \<le> n_query agent \<and> n_query agent \<le> int (length pool)"
  then obtain idx g' where
    s: "sample E pool (n_query agent) g = (Inr (map (\<lambda>i. pool ! i) idx), g')"
    and l: "length idx = nat (n_query agent)" and d: "distinct idx"
    and sub: "set idx \<subseteq> {..<length pool}"
    using sample_ok [OF assms(1), of "n_query agent" pool g] by blast
  let ?keys = "index_tolist (map (\<lambda>i. pool ! i) idx)"
  have "get_hypotheses E agent pool seed g = (Inr ?keys, g')"
    by (simp add: get_hypotheses_def s)
  moreover have "length ?keys = nat (n_query agent)"
    by (simp add: index_tolist_def l)
  moreover have "distinct ?keys"
    using distinct_keys_at [OF _ d sub] assms(3) by (simp add: index_tolist_def)
  moreover have "set ?keys \<subseteq> set (index_tolist pool)"
    using sub by (auto simp: index_tolist_def)
  ultimately show "\<exists>keys g'. get_hypotheses E agent pool seed g = (Inr keys, g') \<and>
               length keys = nat (n_query agent) \<and> distinct keys \<and>
               set keys \<subseteq> set (index_tolist pool)"
    by blast
qed

lemma get_hypotheses_example:
  "get_hypotheses E0 (RandomAgent_init None None 2) [(10 :: nat, 1 :: real), (20, 2), (30, 3)] None 1
     = (Inr [20, 30], 2)"
  by (simp add: get_hypotheses_def sample_def RandomAgent_init_def rot_shuffle_def iloc_def
      index_tolist_def upt_rec)

theorem get_hypotheses_contract_witness:
  "shuffle_permutes E0 \<and> [(10 :: nat, 1 :: real), (20, 2), (30, 3)] \<noteq> [] \<and>
   distinct (index_tolist [(10 :: nat, 1 :: real), (20, 2), (30, 3)]) \<and>
   0 \<le> n_query (RandomAgent_init None None 2 :: (nat, real) RandomAgent) \<and>
   n_query (RandomAgent_init None None 2 :: (nat, real) RandomAgent)
     \<le> int (length [(10 :: nat, 1 :: real), (20, 2), (30, 3)]) \<and>
   (\<exists>keys g'. get_hypotheses E0 (RandomAgent_init None None 2)
                 [(10 :: nat, 1 :: real), (20, 2), (30, 3)] None 1 = (Inr keys, g') \<and>
      length keys = nat (n_query (RandomAgent_init None None 2 :: (nat, real) RandomAgent)) \<and>
      distinct keys \<and>
      set keys \<subseteq> set (index_tolist [(10 :: nat, 1 :: real), (20, 2), (30, 3)])) \<and>
   int (length [(10 :: nat, 1 :: real), (20, 2), (30, 3)])
     < n_query (RandomAgent_init None None 5 :: (nat, real) RandomAgent) \<and>
   get_hypotheses E0 (RandomAgent_init None None 5)
     [(10 :: nat, 1 :: real), (20, 2), (30, 3)] None 1 = (Inl ValueError, 1)"
proof -
  have p: "[(10 :: nat, 1 :: real), (20, 2), (30, 3)] \<noteq> []" by simp
  have d: "distinct (index_tolist [(10 :: nat, 1 :: real), (20, 2), (30, 3)])"
    by (simp add: index_tolist_def)
  have n: "0 \<le> n_query (RandomAgent_init None None 2 :: (nat, real) RandomAgent) \<and>
     n_query (RandomAgent_init None None 2 :: (nat, real) RandomAgent)
     \<le> int (length [(10 :: nat, 1 :: real), (20, 2), (30, 3)])"
    by (simp add: RandomAgent_init_def)
  have m: "int (length [(10 :: nat, 1 :: real), (20, 2), (30, 3)])
     < n_query (RandomAgent_init None None 5 :: (nat, real) RandomAgent)"
    by (simp add: RandomAgent_init_def)
  note T = get_hypotheses_contract [OF E0_shuffle_permutes p d, THEN conjunct1, THEN mp, OF n]
  note U = get_hypotheses_contract [OF E0_shuffle_permutes p d, THEN conjunct2, THEN mp, OF m]
  show ?thesis
    by (intro conjI E0_shuffle_permutes p d n [THEN conjunct1] n [THEN conjunct2] T m U)
qed

section \<open>Properties of the campaign loop controller\<close>

lemma restore_fields:
  "create_seed (restore snap c) = None" "initialized (restore snap c)"
  "iteration (restore snap c) = snap_iteration snap"
  "seed_data (restore snap c) = snap_seed_data snap"
  "candidate_data (restore snap c) = snap_candidate_data snap"
  "history (restore snap c) = snap_history snap"
  by (simp_all add: restore_def)

lemma run_iteration:
  assumes "run C c store g = (Inr (c', store'), g')"
  shows "iteration c' = iteration c + 1 \<and> store' = Some (snapshot_of c')"
proof -
  from assms have i: "initialized c"
    by (auto simp: run_def split: if_splits)
  obtain sel g1 where s: "select C (candidate_data c) (seed_data c) g = (sel, g1)"
    by (cases "select C (candidate_data c) (seed_data c) g")
  from assms i s obtain keys where k: "sel = Some keys"
    by (cases sel) (auto simp: run_def)
  from assms i s k have sub: "set keys \<subseteq> set (map fst (candidate_data c))"
    by (auto simp: run_def split: if_splits)
  from assms i s k sub show ?thesis
    by (auto simp: run_def Let_def)
qed

lemma run_ok:
  assumes "initialized c"
    and "select C (candidate_data c) (seed_data c) g = (Some keys, g')"
    and "set keys \<subseteq> set (map fst (candidate_data c))"
  shows "\<exists>c'. run C c store g = (Inr (c', Some (snapshot_of c')), g')"
  using assms by (simp add: run_def Let_def)

text \<open>
  C9, on the controller modelled from the specification. With a persisted state at the
  campaign location, \<open>initialize()\<close> succeeds and restores it, whatever seed-creation
  request the caller made: afterwards the \<open>create_seed\<close> request is cleared, the
  controller is initialized, and its iteration count and partition are the persisted
  ones. Constructing the controller over that location restores in the same way. Every
  further \<open>run()\<close> that succeeds leaves the iteration count at the persisted count plus
  one and persists that state, and \<open>run()\<close> does succeed whenever the agent selects
  candidate keys.
\<close>

theorem restore_ignores_create_seed:
  "initialize C c (Some snap) g = (Inr (restore snap c, Some snap), g) \<and>
   Controller_init pool seed request (Some snap) =
     restore snap (Controller_init pool seed request None) \<and>
   create_seed (restore snap c) = None \<and>
   initialized (restore snap c) \<and>
   iteration (restore snap c) = snap_iteration snap \<and>
   seed_data (restore snap c) = snap_seed_data snap \<and>
   candidate_data (restore snap c) = snap_candidate_data snap \<and>
   (\<forall>c' store' g'. run C (restore snap c) (Some snap) g = (Inr (c', store'), g') \<longrightarrow>
      iteration c' = snap_iteration snap + 1 \<and> store' = Some (snapshot_of c')) \<and>
   (\<forall>keys g'. select C (snap_candidate_data snap) (snap_seed_data snap) g = (Some keys, g') \<and>
        set keys \<subseteq> set (map fst (snap_candidate_data snap)) \<longrightarrow>
      (\<exists>c'. run C (restore snap c) (Some snap) g = (Inr (c', Some (snapshot_of c')), g') \<and>
         iteration c' = snap_iteration snap + 1))"
proof (intro conjI allI impI)
  show "initialize C c (Some snap) g = (Inr (restore snap c, Some snap), g)"
    by (simp add: initialize_def)
  show "Controller_init pool seed request (Some snap) =
     restore snap (Controller_init pool seed request None)"
    by (simp add: Controller_init_def)
  show "create_seed (restore snap c) = None" "initialized (restore snap c)"
    "iteration (restore snap c) = snap_iteration snap"
    "seed_data (restore snap c) = snap_seed_data snap"
    "candidate_data (restore snap c) = snap_candidate_data snap"
    by (rule restore_fields)+
next
  fix c' store' g'
  assume "run C (restore snap c) (Some snap) g = (Inr (c', store'), g')"
  from run_iteration [OF this]
  show "iteration c' = snap_iteration snap + 1" and "store' = Some (snapshot_of c')"
    by (simp_all add: restore_fields)
next
  fix keys g'
  assume a: "select C (snap_candidate_data snap) (snap_seed_data snap) g = (Some keys, g') \<and>
        set keys \<subseteq> set (map fst (snap_candidate_data snap))"
  have "\<exists>c'. run C (restore snap c) (Some snap) g = (Inr (c', Some (snapshot_of c')), g')"
    using a by (intro run_ok) (auto simp: restore_fields)
  then obtain c' where r: "run C (restore snap c) (Some snap) g = (Inr (c', Some (snapshot_of c')), g')"
    by blast
  from run_iteration [OF r] have "iteration c' = snap_iteration snap + 1"
    by (simp add: restore_fields)
  with r show "\<exists>c'. run C (restore snap c) (Some snap) g = (Inr (c', Some (snapshot_of c')), g') \<and>
         iteration c' = snap_iteration snap + 1"
    by blast
qed

lemma select_example:
  "select C0 (snap_candidate_data snap0) (snap_seed_data snap0) 0 = (Some [2], 0) \<and>
   set [2 :: nat] \<subseteq> set (map fst (snap_candidate_data snap0))"
  by (simp add: C0_def snap0_def)

theorem restore_ignores_create_seed_witness:
  "create_seed c0 = Some 2 \<and>
   initialize C0 c0 (Some snap0) 0 = (Inr (restore snap0 c0, Some snap0), 0) \<and>
   create_seed (restore snap0 c0) = None \<and>
   initialized (restore snap0 c0) \<and>
   iteration (restore snap0 c0) = 3 \<and>
   select C0 (snap_candidate_data snap0) (snap_seed_data snap0) 0 = (Some [2], 0) \<and>
   (\<exists>c'. run C0 (restore snap0 c0) (Some snap0) 0 = (Inr (c', Some (snapshot_of c')), 0) \<and>
      iteration c' = 4)"
proof -
  note T = restore_ignores_create_seed [of C0 c0 snap0 0 "[]" None None]
  have a: "create_seed c0 = Some 2"
    by (simp add: c0_def Controller_init_def)
  have i: "iteration (restore snap0 c0) = 3"
    using T by (simp add: snap0_def)
  have "\<exists>c'. run C0 (restore snap0 c0) (Some snap0) 0 = (Inr (c', Some (snapshot_of c')), 0) \<and>
      iteration c' = snap_iteration snap0 + 1"
    using T select_example by blast
  then have r: "\<exists>c'. run C0 (restore snap0 c0) (Some snap0) 0 = (Inr (c', Some (snapshot_of c')), 0) \<and>
      iteration c' = 4"
    by (simp add: snap0_def)
  show ?thesis
    using T a i r select_example by blast
qed

end
